theory Spec2Isabelle
  imports Complex_Main "HOL-Library.Sublist"
begin

chapter \<open>The model\<close>

text \<open>
  A shallow embedding of the aggregation code of the ticket dashboard. The server is the
  Express application with the routes \<open>/api/archived-tickets\<close>, \<open>/api/agent-performance\<close>,
  \<open>/api/tickets-yearly-summary\<close> and the members endpoint that accumulates the aging
  buckets; the routes module is \<open>backend/Application/agentPerformanceRoutes.js\<close>; the table
  component is \<open>AgentTicketAgeTable.jsx\<close> and the charts component is
  \<open>AgentPerformanceCharts.jsx\<close>. Functions of the JavaScript runtime whose full behaviour
  is not needed (\<open>Date\<close> parsing, \<open>getFullYear\<close>, \<open>Number\<close>) and the helpers of the
  component's \<open>utils\<close> module are parameters of the functions that call them.
\<close>

section \<open>JavaScript string helpers\<close>

text \<open>
  Strings are byte strings restricted to ASCII: \<open>toLowerCase\<close> folds the letters A--Z,
  \<open>\s\<close> and \<open>trim\<close> know the six ASCII white-space characters, \<open>\d\<close> the ten digits.
  A field that is missing, \<open>null\<close> or \<open>undefined\<close> in a ticket object is the empty
  string wherever the source reads it through \<open>x || ""\<close> or tests it for truthiness, and an
  \<open>option\<close> where the source can tell the difference.
\<close>

definition lower_char :: "char \<Rightarrow> char" where
  "lower_char c =
     (case map_of (zip ''ABCDEFGHIJKLMNOPQRSTUVWXYZ'' ''abcdefghijklmnopqrstuvwxyz'') c of
        Some d \<Rightarrow> d
      | None \<Rightarrow> c)"

definition toLowerCase :: "string \<Rightarrow> string" where
  "toLowerCase s = map lower_char s"

definition is_space :: "char \<Rightarrow> bool" where
  "is_space c = (c \<in> set [CHR '' '', CHR 0x09, CHR 0x0A, CHR 0x0B, CHR 0x0C, CHR 0x0D])"

definition is_digit :: "char \<Rightarrow> bool" where
  "is_digit c = (c \<in> set ''0123456789'')"

definition trim :: "string \<Rightarrow> string" where
  "trim s = rev (dropWhile is_space (rev (dropWhile is_space s)))"

section \<open>Archived-tickets endpoint: merge and de-duplicate\<close>

text \<open>
  \<open>/api/archived-tickets\<close> maps every closed ticket it fetched to a row tagged with its
  provenance, concatenates the archived rows and the active closed rows in that order, and
  filters the concatenation through a \<open>Set\<close> of the ids seen so far. What follows in the
  route (the first response time added to every row, the sort by closing time) neither
  drops nor adds a row and changes neither id nor provenance.
\<close>

datatype source = Archived | ActiveClosed

record ticket =
  ticket_id :: string
  ticketNumber :: string
  status :: string
  createdTime :: string
  closedTime :: string
  lastModifiedTime :: string
  assigneeId :: "string option"
  departmentId :: string

record row =
  row_id :: string
  row_ticketNumber :: string
  row_status :: string
  row_createdTime :: string
  row_closedTime :: string
  row_source :: source

text \<open>\<open>a || b\<close> on strings: the first operand unless it is empty.\<close>

definition or_else :: "string \<Rightarrow> string \<Rightarrow> string" where
  "or_else a b = (if a = [] then b else a)"

text \<open>
  \<open>mapTicket(ticket, source)\<close>. The agent and department names and the subject are
  resolved from the ticket alone and play no part in the merge; they are left out.
\<close>

definition mapTicket :: "ticket \<Rightarrow> source \<Rightarrow> row" where
  "mapTicket t src =
     \<lparr> row_id = ticket_id t,
       row_ticketNumber = or_else (ticketNumber t) (ticket_id t),
       row_status = or_else (status t) ''closed'',
       row_createdTime = createdTime t,
       row_closedTime = or_else (closedTime t) (lastModifiedTime t),
       row_source = src \<rparr>"

text \<open>
  The filter callback, with the \<open>seen\<close> set threaded through:
  \<^verbatim>\<open>if (seen.has(row.id)) return false; seen.add(row.id); return true;\<close>
\<close>

fun dedupe :: "string set \<Rightarrow> row list \<Rightarrow> row list" where
  "dedupe seen [] = []"
| "dedupe seen (r # rs) =
     (if row_id r \<in> seen then dedupe seen rs
      else r # dedupe (insert (row_id r) seen) rs)"

definition archivedRows :: "ticket list \<Rightarrow> row list" where
  "archivedRows archivedTickets = map (\<lambda>t. mapTicket t Archived) archivedTickets"

definition activeClosedRows :: "ticket list \<Rightarrow> row list" where
  "activeClosedRows activeClosedTickets = map (\<lambda>t. mapTicket t ActiveClosed) activeClosedTickets"

definition allRows :: "ticket list \<Rightarrow> ticket list \<Rightarrow> row list" where
  "allRows archivedTickets activeClosedTickets =
     dedupe {} (archivedRows archivedTickets @ activeClosedRows activeClosedTickets)"

text \<open>
  The mixed-sources scenario: ticket A1 is still listed as an active closed ticket and is
  already archived; ticket B2 is only active.
\<close>

definition ex_A1_archived :: ticket where
  "ex_A1_archived =
     \<lparr> ticket_id = ''A1'', ticketNumber = ''101'', status = ''Closed'',
       createdTime = ''2024-01-10'', closedTime = ''2024-01-15'', lastModifiedTime = [],
       assigneeId = Some ''7001'', departmentId = ''D1'' \<rparr>"

definition ex_A1_active :: ticket where
  "ex_A1_active =
     \<lparr> ticket_id = ''A1'', ticketNumber = ''101'', status = ''closed'',
       createdTime = ''2024-01-10'', closedTime = [], lastModifiedTime = ''2024-01-14'',
       assigneeId = Some ''7001'', departmentId = ''D1'' \<rparr>"

definition ex_B2_active :: ticket where
  "ex_B2_active =
     \<lparr> ticket_id = ''B2'', ticketNumber = [], status = ''closed'',
       createdTime = ''2024-02-01'', closedTime = ''2024-02-03'', lastModifiedTime = [],
       assigneeId = None, departmentId = [] \<rparr>"

section \<open>Status normalisation by \<open>statusMap\<close>\<close>

text \<open>
  A value read out of a JavaScript object: a string, or some object or function that is not
  a string. The latter is what a lookup of an inherited property name gives
  (\<open>statusMap["constructor"]\<close> is the function \<open>Object\<close>).
\<close>

datatype jsval = Str string | Obj

definition statusMap :: "(string \<times> string) list" where
  "statusMap =
     [(''open'', ''open''),
      (''on hold'', ''hold''),
      (''hold'', ''hold''),
      (''closed'', ''closed''),
      (''in progress'', ''inProgress''),
      (''escalated'', ''escalated''),
      (''unassigned'', ''unassigned''),
      ([], ''unassigned'')]"

definition object_prototype_names :: "string list" where
  "object_prototype_names =
     [''constructor'', ''__proto__'', ''hasOwnProperty'', ''isPrototypeOf'',
      ''propertyIsEnumerable'', ''toLocaleString'', ''toString'', ''valueOf'',
      ''__defineGetter__'', ''__defineSetter__'', ''__lookupGetter__'', ''__lookupSetter__'']"

text \<open>\<open>statusMap[k]\<close>: \<open>None\<close> is \<open>undefined\<close>.\<close>

definition statusMap_get :: "string \<Rightarrow> jsval option" where
  "statusMap_get k =
     (case map_of statusMap k of
        Some v \<Rightarrow> Some (Str v)
      | None \<Rightarrow> if k \<in> set object_prototype_names then Some Obj else None)"

text \<open>\<open>a || b\<close> where \<open>a\<close> is the result of a lookup: \<open>undefined\<close> and \<open>""\<close> are falsy.\<close>

definition js_or :: "jsval option \<Rightarrow> jsval \<Rightarrow> jsval" where
  "js_or a b =
     (case a of
        None \<Rightarrow> b
      | Some (Str s) \<Rightarrow> if s = [] then b else Str s
      | Some Obj \<Rightarrow> Obj)"

text \<open>
  The ticket loop of the members endpoint:
  \<^verbatim>\<open>const rawStatus = (ticket.status || "").toLowerCase();\<close>
  \<^verbatim>\<open>const normalizedStatus = statusMap[rawStatus] || "unassigned";\<close>
\<close>

definition normalizedStatus :: "string \<Rightarrow> jsval" where
  "normalizedStatus st = js_or (statusMap_get (toLowerCase st)) (Str ''unassigned'')"

text \<open>
  The per-agent age filters of the same endpoint:
  \<^verbatim>\<open>const rawStatus = (t.status || "").toLowerCase();\<close>
  \<^verbatim>\<open>const normalized = statusMap[rawStatus] || rawStatus;\<close>
\<close>

definition normalized :: "string \<Rightarrow> jsval" where
  "normalized st = js_or (statusMap_get (toLowerCase st)) (Str (toLowerCase st))"

section \<open>Aging accumulation\<close>

text \<open>
  JavaScript numbers that come out of date arithmetic: \<open>NaN\<close> when the date did not
  parse. Both operands of \<open>now - created\<close> are whole milliseconds far below \<open>2^53\<close>, and the
  quotient by the milliseconds of a day is compared with small integers only, so the exact
  quotient decides every comparison the way the rounded one does. Every comparison with
  \<open>NaN\<close> is false.
\<close>

datatype jsnum = NaN | Num rat

fun js_ge :: "jsnum \<Rightarrow> rat \<Rightarrow> bool" where
  "js_ge NaN b = False"
| "js_ge (Num a) b = (a \<ge> b)"

fun js_gt :: "jsnum \<Rightarrow> rat \<Rightarrow> bool" where
  "js_gt NaN b = False"
| "js_gt (Num a) b = (a > b)"

fun js_lt :: "jsnum \<Rightarrow> rat \<Rightarrow> bool" where
  "js_lt NaN b = False"
| "js_lt (Num a) b = (a < b)"

text \<open>
  \<^verbatim>\<open>ticket.createdTime ? (now - new Date(ticket.createdTime)) / (1000 * 60 * 60 * 24) : null\<close>
  The parser of \<open>Date\<close> is a parameter: it gives the epoch milliseconds, or \<open>None\<close> for
  an invalid date. The result \<open>None\<close> of \<open>ageDays\<close> is \<open>null\<close>.
\<close>

definition ageDays :: "int \<Rightarrow> (string \<Rightarrow> int option) \<Rightarrow> ticket \<Rightarrow> jsnum option" where
  "ageDays now parseDate t =
     (if createdTime t = [] then None
      else (case parseDate (createdTime t) of
              None \<Rightarrow> Some NaN
            | Some ms \<Rightarrow> Some (Num (of_int (now - ms) / (1000 * 60 * 60 * 24)))))"

datatype bstatus = Open | Hold | InProgress | Escalated

datatype fine = BetweenOneAndSevenDays | BetweenEightAndFifteenDays | OlderThanFifteenDays

datatype coarse = BetweenOneAndFifteenDays | BetweenSixteenAndThirtyDays | OlderThanThirtyDays

text \<open>
  One entry \<open>userDeptAgingCounts[assigneeId][deptId]\<close>. The source spells it as an object
  of 36 properties named by status, bucket and kind; \<open>coarseCount Open
  BetweenOneAndFifteenDays\<close> is \<open>openBetweenOneAndFifteenDaysCount\<close>, \<open>coarseTickets\<close> the
  \<open>...Tickets\<close> array beside it, and \<open>fineTickets Open BetweenOneAndSevenDays\<close> is
  \<open>openBetweenOneAndSevenDaysTickets\<close>. The fine buckets have arrays only.
\<close>

record agingCounts =
  coarseCount :: "bstatus \<Rightarrow> coarse \<Rightarrow> nat"
  coarseTickets :: "bstatus \<Rightarrow> coarse \<Rightarrow> string list"
  fineTickets :: "bstatus \<Rightarrow> fine \<Rightarrow> string list"

definition new_agingCounts :: agingCounts where
  "new_agingCounts =
     \<lparr> coarseCount = (\<lambda>st b. 0), coarseTickets = (\<lambda>st b. []), fineTickets = (\<lambda>st b. []) \<rparr>"

text \<open>The property-name prefix a normalised status selects, if any.\<close>

fun status_prefix :: "jsval \<Rightarrow> bstatus option" where
  "status_prefix Obj = None"
| "status_prefix (Str s) =
     (if s = ''open'' then Some Open
      else if s = ''hold'' then Some Hold
      else if s = ''inProgress'' then Some InProgress
      else if s = ''escalated'' then Some Escalated
      else None)"

text \<open>\<open>agingCounts[normalizedStatus + "...Tickets"].push(ticketNumber)\<close>\<close>

definition push_fine :: "bstatus \<Rightarrow> fine \<Rightarrow> string \<Rightarrow> agingCounts \<Rightarrow> agingCounts" where
  "push_fine st b n ac =
     ac\<lparr> fineTickets := (fineTickets ac)(st := (fineTickets ac st)(b := fineTickets ac st b @ [n])) \<rparr>"

text \<open>\<open>agingCounts.<status><bucket>Count++\<close>\<close>

definition incr_coarse :: "bstatus \<Rightarrow> coarse \<Rightarrow> agingCounts \<Rightarrow> agingCounts" where
  "incr_coarse st b ac =
     ac\<lparr> coarseCount := (coarseCount ac)(st := (coarseCount ac st)(b := coarseCount ac st b + 1)) \<rparr>"

text \<open>\<open>agingCounts.<status><bucket>Tickets.push(ticketNumber)\<close>\<close>

definition push_coarse :: "bstatus \<Rightarrow> coarse \<Rightarrow> string \<Rightarrow> agingCounts \<Rightarrow> agingCounts" where
  "push_coarse st b n ac =
     ac\<lparr> coarseTickets :=
          (coarseTickets ac)(st := (coarseTickets ac st)(b := coarseTickets ac st b @ [n])) \<rparr>"

text \<open>
  The first \<open>if\<close> of the loop body, entered for the four open statuses:
  \<open>0 \<le> age < 8\<close>, \<open>8 \<le> age < 16\<close>, \<open>age \<ge> 16\<close>.
\<close>

definition fine_branch :: "bstatus \<Rightarrow> jsnum \<Rightarrow> string \<Rightarrow> agingCounts \<Rightarrow> agingCounts" where
  "fine_branch st age n ac =
     (if js_ge age 0 \<and> js_lt age 8 then push_fine st BetweenOneAndSevenDays n ac
      else if js_ge age 8 \<and> js_lt age 16 then push_fine st BetweenEightAndFifteenDays n ac
      else if js_ge age 16 then push_fine st OlderThanFifteenDays n ac
      else ac)"

text \<open>
  The branch the source writes out once for each of \<open>open\<close>, \<open>hold\<close>, \<open>inProgress\<close> and
  \<open>escalated\<close>, the four copies differing in the property prefix only:
  \<^verbatim>\<open>if (ageDays >= 0 && ageDays < 16) { ...Count++; ...Tickets.push(ticketNumber); }\<close>
  \<^verbatim>\<open>else if (ageDays >= 16 && ageDays < 31) { ... } else if (ageDays > 30) { ... }\<close>
\<close>

definition coarse_bucket :: "jsnum \<Rightarrow> coarse option" where
  "coarse_bucket age =
     (if js_ge age 0 \<and> js_lt age 16 then Some BetweenOneAndFifteenDays
      else if js_ge age 16 \<and> js_lt age 31 then Some BetweenSixteenAndThirtyDays
      else if js_gt age 30 then Some OlderThanThirtyDays
      else None)"

definition coarse_branch :: "bstatus \<Rightarrow> jsnum \<Rightarrow> string \<Rightarrow> agingCounts \<Rightarrow> agingCounts" where
  "coarse_branch st age n ac =
     (case coarse_bucket age of
        None \<Rightarrow> ac
      | Some b \<Rightarrow> push_coarse st b n (incr_coarse st b ac))"

text \<open>The part of the loop body under \<open>if (ageDays !== null)\<close>.\<close>

definition accumulate :: "jsval \<Rightarrow> jsnum option \<Rightarrow> string \<Rightarrow> agingCounts \<Rightarrow> agingCounts" where
  "accumulate ns age n ac =
     (case age of
        None \<Rightarrow> ac
      | Some a \<Rightarrow>
          let ac1 = (case status_prefix ns of None \<Rightarrow> ac | Some st \<Rightarrow> fine_branch st a n ac)
          in if ns = Str ''open'' then coarse_branch Open a n ac1
             else if ns = Str ''hold'' then coarse_branch Hold a n ac1
             else if ns = Str ''inProgress'' then coarse_branch InProgress a n ac1
             else if ns = Str ''escalated'' then coarse_branch Escalated a n ac1
             else ac1)"

text \<open>
  The key of the agent: \<open>"unassigned"\<close> when \<open>assigneeId\<close> is missing, empty, \<open>"none"\<close> or
  \<open>"null"\<close> in any letter case, the id as it stands otherwise.
\<close>

definition assignee_key :: "ticket \<Rightarrow> string" where
  "assignee_key t =
     (case assigneeId t of
        None \<Rightarrow> ''unassigned''
      | Some a \<Rightarrow>
          let assigneeRaw = toLowerCase a
          in if assigneeRaw = [] \<or> assigneeRaw = ''none'' \<or> assigneeRaw = ''null''
             then ''unassigned'' else a)"

text \<open>
  \<open>userDeptAgingCounts\<close>, the nested object, as a map from the pair of agent key and
  department id. The loop body creates the entry of the ticket's pair when it is missing and
  then accumulates into it. The status counters that the same loop keeps in
  \<open>ticketStatusCountMap\<close> do not touch the aging entries and are left out.
\<close>

type_synonym aging_table = "string \<times> string \<Rightarrow> agingCounts option"

definition aging_step ::
  "int \<Rightarrow> (string \<Rightarrow> int option) \<Rightarrow> aging_table \<Rightarrow> ticket \<Rightarrow> aging_table" where
  "aging_step now parseDate tab t =
     (let key = (assignee_key t, or_else (departmentId t) ''no_department'');
          entry = (case tab key of None \<Rightarrow> new_agingCounts | Some e \<Rightarrow> e);
          n = or_else (ticketNumber t) (ticket_id t)
      in tab(key \<mapsto> accumulate (normalizedStatus (status t)) (ageDays now parseDate t) n entry))"

definition userDeptAgingCounts ::
  "int \<Rightarrow> (string \<Rightarrow> int option) \<Rightarrow> ticket list \<Rightarrow> aging_table" where
  "userDeptAgingCounts now parseDate tickets = foldl (aging_step now parseDate) Map.empty tickets"

text \<open>The count of every coarse bucket of an entry is the length of its ticket list.\<close>

definition counts_agree :: "agingCounts \<Rightarrow> bool" where
  "counts_agree ac = (\<forall>st b. coarseCount ac st b = length (coarseTickets ac st b))"

text \<open>
  A run on 9 February 2024, 00:00 UTC: an open ticket created exactly 30 days earlier and a
  ticket on hold created 8 days earlier, of another agent.
\<close>

definition ex_parseDate :: "string \<Rightarrow> int option" where
  "ex_parseDate s =
     map_of [(''2024-01-10T00:00:00Z'', 1704844800000),
             (''2024-02-01T00:00:00Z'', 1706745600000),
             (''2023-06-10T00:00:00Z'', 1686355200000),
             (''2024-01-15T00:00:00Z'', 1705276800000)] s"

definition ex_now :: int where
  "ex_now = 1707436800000"

definition ex_open30 :: ticket where
  "ex_open30 =
     \<lparr> ticket_id = ''A1'', ticketNumber = ''101'', status = ''Open'',
       createdTime = ''2024-01-10T00:00:00Z'', closedTime = [], lastModifiedTime = [],
       assigneeId = Some ''7001'', departmentId = ''D1'' \<rparr>"

definition ex_hold8 :: ticket where
  "ex_hold8 =
     \<lparr> ticket_id = ''B2'', ticketNumber = ''102'', status = ''On Hold'',
       createdTime = ''2024-02-01T00:00:00Z'', closedTime = [], lastModifiedTime = [],
       assigneeId = Some ''7002'', departmentId = [] \<rparr>"

section \<open>Frontend tables: search and pagination\<close>

text \<open>
  A row as the table components receive it in their \<open>metricsRows\<close> and \<open>archivedRows\<close>
  props. A missing field is the empty string: the components read every field through
  \<open>row.field || ""\<close> or test it for truthiness.
\<close>

record viewRow =
  v_agentName :: string
  v_ticketNumber :: string
  v_status :: string
  v_departmentName :: string
  v_createdTime :: string
  v_closedTime :: string
  v_firstResponseTime :: string
  v_resolutionTime :: string

text \<open>\<open>/^\d+$/.test(q)\<close>\<close>

definition isNumeric :: "string \<Rightarrow> bool" where
  "isNumeric q = (q \<noteq> [] \<and> list_all is_digit q)"

text \<open>
  \<open>agent.split(/\s+/).filter(Boolean)\<close>: the maximal runs of characters that are not white
  space, in order. \<open>cur\<close> is the run being read.
\<close>

fun split_ws :: "string \<Rightarrow> string \<Rightarrow> string list" where
  "split_ws cur [] = (if cur = [] then [] else [cur])"
| "split_ws cur (c # cs) =
     (if is_space c then (if cur = [] then split_ws [] cs else cur # split_ws [] cs)
      else split_ws (cur @ [c]) cs)"

definition words :: "string \<Rightarrow> string list" where
  "words s = split_ws [] s"

text \<open>\<open>s.includes(q)\<close>: \<open>q\<close> occurs in \<open>s\<close> as a contiguous substring.\<close>

fun str_includes :: "string \<Rightarrow> string \<Rightarrow> bool" where
  "str_includes [] q = (q = [])"
| "str_includes (c # cs) q = (prefix q (c # cs) \<or> str_includes cs q)"

text \<open>
  The search clause of \<open>filteredArchivedRows\<close>, applied to the rows that passed the date
  range. \<open>archivedMatch\<close> is the filter callback for the lower-cased query \<open>q\<close>:
  \<^verbatim>\<open>if (isNumeric) return ticketNo === q;\<close>
  \<^verbatim>\<open>const words = agent.split(/\s+/).filter(Boolean); return words.some((w) => w.startsWith(q));\<close>
  The sort by agent name that follows only reorders the rows and is left out.
\<close>

definition archivedMatch :: "string \<Rightarrow> viewRow \<Rightarrow> bool" where
  "archivedMatch q row =
     (let agent = toLowerCase (v_agentName row);
          ticketNo = toLowerCase (trim (v_ticketNumber row))
      in if isNumeric q then ticketNo = q
         else list_ex (\<lambda>w. prefix q w) (words agent))"

definition archivedSearch :: "string \<Rightarrow> viewRow list \<Rightarrow> viewRow list" where
  "archivedSearch searchTerm rows =
     (let raw = trim searchTerm
      in if raw = [] then rows
         else filter (archivedMatch (toLowerCase raw)) rows)"

text \<open>
  The search of \<open>sortedMetricsRows\<close>: the query is looked for anywhere in the row's agent
  name, ticket number, status, department and creation time, joined by blanks and
  lower-cased. Again the sort that follows is left out.
\<close>

definition combined :: "viewRow \<Rightarrow> string" where
  "combined r =
     toLowerCase (v_agentName r @ '' '' @ v_ticketNumber r @ '' '' @ v_status r @ '' '' @
       v_departmentName r @ '' '' @ v_createdTime r)"

definition metricsSearch :: "string \<Rightarrow> viewRow list \<Rightarrow> viewRow list" where
  "metricsSearch searchTerm rows =
     (let q = toLowerCase (trim searchTerm)
      in if q = [] then rows else filter (\<lambda>r. str_includes (combined r) q) rows)"

text \<open>
  \<open>xs.slice(start, end)\<close> with integer arguments: a negative index counts from the end,
  and both are clipped to the array.
\<close>

definition js_slice :: "'a list \<Rightarrow> int \<Rightarrow> int \<Rightarrow> 'a list" where
  "js_slice xs start end =
     (let n = int (length xs);
          k = (if start < 0 then max (n + start) 0 else min start n);
          final = (if end < 0 then max (n + end) 0 else min end n)
      in take (nat (final - k)) (drop (nat k) xs))"

text \<open>
  \<^verbatim>\<open>Math.max(1, Math.ceil(rows.length / pageSize))\<close>
  The page sizes of the source are the positive constants 200 (metrics), 500 (archived) and
  100 (agent performance); the quotient of two such integers is far from the rounding
  error of a double, so the exact quotient has the same ceiling.
\<close>

definition totalPages :: "'a list \<Rightarrow> nat \<Rightarrow> int" where
  "totalPages rows pageSize = max 1 \<lceil>(of_nat (length rows) :: rat) / of_nat pageSize\<rceil>"

text \<open>
  \<^verbatim>\<open>const start = (page - 1) * pageSize; return rows.slice(start, start + pageSize);\<close>
  The page is the component's state; nothing compares it with the number of pages here.
\<close>

definition pagedRows :: "'a list \<Rightarrow> int \<Rightarrow> nat \<Rightarrow> 'a list" where
  "pagedRows rows page pageSize =
     (let start = (page - 1) * int pageSize in js_slice rows start (start + int pageSize))"

text \<open>
  The only writers of the page besides the reset to 1: the buttons
  \<^verbatim>\<open>setPage((p) => Math.max(1, p - 1))\<close> and \<^verbatim>\<open>setPage((p) => Math.min(totalPages, p + 1))\<close>.
\<close>

definition prevPage :: "int \<Rightarrow> int" where
  "prevPage p = max 1 (p - 1)"

definition nextPage :: "int \<Rightarrow> int \<Rightarrow> int" where
  "nextPage tp p = min tp (p + 1)"

definition ex_row123 :: viewRow where
  "ex_row123 =
     \<lparr> v_agentName = ''Asha Rao'', v_ticketNumber = ''123'', v_status = ''Closed'',
       v_departmentName = ''IT'', v_createdTime = ''2023-06-10T00:00:00Z'',
       v_closedTime = ''2024-01-15T00:00:00Z'', v_firstResponseTime = ''01:00 hrs'',
       v_resolutionTime = [] \<rparr>"

definition ex_row1234 :: viewRow where
  "ex_row1234 =
     \<lparr> v_agentName = ''Maria Ashton'', v_ticketNumber = ''1234'', v_status = ''Open'',
       v_departmentName = ''IT'', v_createdTime = ''2024-02-01T00:00:00Z'', v_closedTime = [],
       v_firstResponseTime = [], v_resolutionTime = [] \<rparr>"

section \<open>Yearly trends\<close>

text \<open>\<open>RESOLVED_STATUSES\<close> of the backend; the charts build the same set as \<open>resolvedSet\<close>.\<close>

definition RESOLVED_STATUSES :: "string list" where
  "RESOLVED_STATUSES = [''resolved'', ''closed'', ''archived'', ''completed'']"

record yearEntry =
  created :: nat
  resolved :: nat

type_synonym yearMap = "int \<Rightarrow> yearEntry option"

text \<open>
  The year of a time field: \<open>None\<close> when the field is missing or does not parse
  (\<open>Number.isNaN(date.getTime())\<close>). The parser of \<open>Date\<close> and \<open>getFullYear\<close>, which reads
  the year in the local time zone, are parameters.
\<close>

definition year_of :: "(string \<Rightarrow> int option) \<Rightarrow> (int \<Rightarrow> int) \<Rightarrow> string \<Rightarrow> int option" where
  "year_of parseDate getFullYear s =
     (if s = [] then None
      else (case parseDate s of None \<Rightarrow> None | Some ms \<Rightarrow> Some (getFullYear ms)))"

text \<open>\<open>if (!map[y]) map[y] = { created: 0, resolved: 0 };\<close> followed by the read of \<open>map[y]\<close>.\<close>

definition entry_or_new :: "yearMap \<Rightarrow> int \<Rightarrow> yearEntry" where
  "entry_or_new m y = (case m y of None \<Rightarrow> \<lparr> created = 0, resolved = 0 \<rparr> | Some e \<Rightarrow> e)"

text \<open>
  The loop body of \<open>yearlyData\<close> in the charts component, over the archived rows that
  passed the agent and department filters: one increment of \<open>created\<close> under the creation
  year, then, for a resolved-like status, one increment of \<open>resolved\<close> under the closure
  year.
\<close>

definition yearly_step ::
  "(string \<Rightarrow> int option) \<Rightarrow> (int \<Rightarrow> int) \<Rightarrow> yearMap \<Rightarrow> viewRow \<Rightarrow> yearMap" where
  "yearly_step parseDate getFullYear m t =
     (let m1 = (case year_of parseDate getFullYear (v_createdTime t) of
                  None \<Rightarrow> m
                | Some y \<Rightarrow> m(y \<mapsto> (entry_or_new m y)\<lparr> created := created (entry_or_new m y) + 1 \<rparr>))
      in if toLowerCase (v_status t) \<in> set RESOLVED_STATUSES
         then (case year_of parseDate getFullYear (v_closedTime t) of
                 None \<Rightarrow> m1
               | Some y \<Rightarrow> m1(y \<mapsto> (entry_or_new m1 y)\<lparr> resolved := resolved (entry_or_new m1 y) + 1 \<rparr>))
         else m1)"

definition yearlyData ::
  "(string \<Rightarrow> int option) \<Rightarrow> (int \<Rightarrow> int) \<Rightarrow> viewRow list \<Rightarrow> yearMap" where
  "yearlyData parseDate getFullYear rows = foldl (yearly_step parseDate getFullYear) Map.empty rows"

definition created_of :: "yearMap \<Rightarrow> int \<Rightarrow> nat" where
  "created_of m y = (case m y of None \<Rightarrow> 0 | Some e \<Rightarrow> created e)"

definition resolved_of :: "yearMap \<Rightarrow> int \<Rightarrow> nat" where
  "resolved_of m y = (case m y of None \<Rightarrow> 0 | Some e \<Rightarrow> resolved e)"

text \<open>
  \<open>/api/tickets-yearly-summary\<close>. The summary starts with the years 2020 to 2025 at zero.
  The loop body returns early when \<open>createdTime\<close> is missing or invalid or its year has no
  entry; otherwise it increments \<open>created\<close> and, for a resolved-like status, \<open>resolved\<close>,
  both under the creation year. \<open>closedTime\<close> is not read.
\<close>

definition summary0 :: yearMap where
  "summary0 y = (if 2020 \<le> y \<and> y \<le> 2025 then Some \<lparr> created = 0, resolved = 0 \<rparr> else None)"

definition summary_step ::
  "(string \<Rightarrow> int option) \<Rightarrow> (int \<Rightarrow> int) \<Rightarrow> yearMap \<Rightarrow> ticket \<Rightarrow> yearMap" where
  "summary_step parseDate getFullYear summary t =
     (case year_of parseDate getFullYear (createdTime t) of
        None \<Rightarrow> summary
      | Some y \<Rightarrow>
          (case summary y of
             None \<Rightarrow> summary
           | Some e \<Rightarrow>
               let e1 = e\<lparr> created := created e + 1 \<rparr>
               in if toLowerCase (status t) \<in> set RESOLVED_STATUSES
                  then summary(y \<mapsto> e1\<lparr> resolved := resolved e1 + 1 \<rparr>)
                  else summary(y \<mapsto> e1)))"

definition yearlySummary ::
  "(string \<Rightarrow> int option) \<Rightarrow> (int \<Rightarrow> int) \<Rightarrow> ticket list \<Rightarrow> yearMap" where
  "yearlySummary parseDate getFullYear allTickets =
     foldl (summary_step parseDate getFullYear) summary0 allTickets"

text \<open>
  An instance of the two parameters that is right on the dates of the examples: the year by
  the mean length of a Gregorian year.
\<close>

definition ex_getFullYear :: "int \<Rightarrow> int" where
  "ex_getFullYear ms = 1970 + ms div 31556952000"

definition ex_cross_year :: ticket where
  "ex_cross_year =
     \<lparr> ticket_id = ''C3'', ticketNumber = ''123'', status = ''closed'',
       createdTime = ''2023-06-10T00:00:00Z'', closedTime = ''2024-01-15T00:00:00Z'',
       lastModifiedTime = [], assigneeId = Some ''7001'', departmentId = ''D1'' \<rparr>"

section \<open>Durations\<close>

text \<open>
  Numbers are exact rationals. The durations of the source are doubles built from a few
  small integers by one division by 60 and a few additions; where a result is rounded to
  whole minutes or compared with an integer, the rounding error of the double (below
  \<open>10\<^sup>-\<^sup>1\<^sup>0\<close> for durations below a million hours) cannot change the outcome.
\<close>

definition digit_val :: "char \<Rightarrow> nat" where
  "digit_val c = of_char c - 48"

text \<open>The value of a string of decimal digits (\<open>+m[1]\<close>, \<open>parseInt(m[1], 10)\<close>).\<close>

definition digits_val :: "string \<Rightarrow> nat" where
  "digits_val ds = foldl (\<lambda>n c. 10 * n + digit_val c) 0 ds"

text \<open>
  \<open>s.match(re)\<close> for a pattern without alternatives: the first position of \<open>s\<close>, from the
  left, at which the pattern matches. \<open>p\<close> matches the pattern at the head of its
  argument and gives the captured groups.
\<close>

fun find_match :: "(string \<Rightarrow> 'a option) \<Rightarrow> string \<Rightarrow> 'a option" where
  "find_match p [] = p []"
| "find_match p (c # cs) = (case p (c # cs) of Some r \<Rightarrow> Some r | None \<Rightarrow> find_match p cs)"

text \<open>\<open>(\d{1,2}):\<close> at the head: the hour digits and what follows the colon.\<close>

fun hours_colon :: "string \<Rightarrow> (string \<times> string) option" where
  "hours_colon (a # b # r) =
     (if is_digit a \<and> b = CHR '':'' then Some ([a], r)
      else (case r of
              c # r' \<Rightarrow> if is_digit a \<and> is_digit b \<and> c = CHR '':'' then Some ([a, b], r') else None
            | [] \<Rightarrow> None))"
| "hours_colon r = None"

text \<open>\<open>(\d{2})\s*hrs?\<close> at the head: the minute digits.\<close>

fun minutes_hr :: "string \<Rightarrow> string option" where
  "minutes_hr (a # b # r) =
     (if is_digit a \<and> is_digit b \<and> prefix ''hr'' (dropWhile is_space r) then Some [a, b] else None)"
| "minutes_hr r = None"

text \<open>\<open>/(\d{1,2}):(\d{2})\s*hrs?/\<close> at the head.\<close>

definition match_hm :: "string \<Rightarrow> (string \<times> string) option" where
  "match_hm s =
     (case hours_colon s of
        None \<Rightarrow> None
      | Some (h, r) \<Rightarrow> (case minutes_hr r of None \<Rightarrow> None | Some m \<Rightarrow> Some (h, m)))"

text \<open>
  \<open>/(\d+)\s*days?\s+(\d{1,2}):(\d{2})\s*hrs?/\<close> at the head. Every repetition of the
  pattern is followed by a character outside its class, so the greedy choice is the only
  one that can match.
\<close>

definition match_dhm :: "string \<Rightarrow> (string \<times> string \<times> string) option" where
  "match_dhm s =
     (let d = takeWhile is_digit s;
          r1 = dropWhile is_space (dropWhile is_digit s)
      in if d = [] \<or> \<not> prefix ''day'' r1 then None
         else let r2 = drop 3 r1;
                  r3 = (case r2 of c # r \<Rightarrow> if c = CHR ''s'' then r else r2 | [] \<Rightarrow> r2)
              in (case r3 of
                    [] \<Rightarrow> None
                  | c # r \<Rightarrow>
                      if \<not> is_space c then None
                      else (case match_hm (dropWhile is_space r) of
                              None \<Rightarrow> None
                            | Some (h, m) \<Rightarrow> Some (d, h, m))))"

text \<open>\<open>/(\d+(\.\d+)?)/\<close> at the head: the integer digits and the fraction digits, if any.\<close>

definition match_num :: "string \<Rightarrow> (string \<times> string) option" where
  "match_num s =
     (let d = takeWhile is_digit s; r = dropWhile is_digit s
      in if d = [] then None
         else (case r of
                 c # r' \<Rightarrow>
                   if c = CHR ''.'' \<and> takeWhile is_digit r' \<noteq> []
                   then Some (d, takeWhile is_digit r') else Some (d, [])
               | [] \<Rightarrow> Some (d, [])))"

text \<open>
  \<open>parseZohoDurationToHours(str)\<close>: a missing, empty or non-string field gives 0, and so
  does a string without a digit. (The copy in the routes module converts the groups with
  \<open>parseInt\<close> instead of unary plus, to the same numbers.)
\<close>

definition parseZohoDurationToHours :: "string \<Rightarrow> rat" where
  "parseZohoDurationToHours str =
     (if str = [] then 0
      else let s = toLowerCase (trim str)
           in (case find_match match_dhm s of
                 Some (days, hours, minutes) \<Rightarrow>
                   of_nat (digits_val days) * 24 + of_nat (digits_val hours) +
                   of_nat (digits_val minutes) / 60
               | None \<Rightarrow>
                   (case find_match match_hm s of
                      Some (hours, minutes) \<Rightarrow>
                        of_nat (digits_val hours) + of_nat (digits_val minutes) / 60
                    | None \<Rightarrow>
                        (case find_match match_num s of
                           Some (d, f) \<Rightarrow>
                             of_nat (digits_val d) + of_nat (digits_val f) / 10 ^ length f
                         | None \<Rightarrow> 0))))"

text \<open>The decimal numeral of a natural number (\<open>String(n)\<close>, for \<open>n\<close> below \<open>10\<^sup>2\<^sup>1\<close>).\<close>

definition digit_char :: "nat \<Rightarrow> char" where
  "digit_char n = ''0123456789'' ! (n mod 10)"

fun show_nat :: "nat \<Rightarrow> string" where
  "show_nat n = (if n < 10 then [digit_char n] else show_nat (n div 10) @ [digit_char (n mod 10)])"

declare show_nat.simps [simp del]

text \<open>\<open>s.padStart(2, "0")\<close>\<close>

definition padStart2 :: "string \<Rightarrow> string" where
  "padStart2 s = replicate (2 - length s) (CHR ''0'') @ s"

text \<open>
  \<^verbatim>\<open>if (!hrs || hrs <= 0) return "0:00";\<close>
  \<^verbatim>\<open>const h = Math.floor(hrs);\<close>
  \<^verbatim>\<open>const m = Math.round((hrs % 1) * 60).toString().padStart(2, "0");\<close>
  For a positive \<open>hrs\<close>, \<open>hrs % 1\<close> is the fractional part and \<open>Math.round\<close> rounds halves up.
\<close>

definition formatHoursToText :: "rat \<Rightarrow> string" where
  "formatHoursToText hrs =
     (if hrs \<le> 0 then ''0:00''
      else let h = nat \<lfloor>hrs\<rfloor>;
               m = nat \<lfloor>(hrs - of_int \<lfloor>hrs\<rfloor>) * 60 + 1 / 2\<rfloor>
           in show_nat h @ '':'' @ padStart2 (show_nat m))"

text \<open>\<open>txt.split(":")\<close>; \<open>cur\<close> is the piece being read.\<close>

fun split_colon :: "string \<Rightarrow> string \<Rightarrow> string list" where
  "split_colon cur [] = [cur]"
| "split_colon cur (c # cs) =
     (if c = CHR '':'' then cur # split_colon [] cs else split_colon (cur @ [c]) cs)"

text \<open>
  \<open>toMinutes(txt)\<close> of the charts component. \<open>Number\<close> is a parameter: the conversion of a
  string to a number, \<open>NaN\<close> included. A missing second piece is \<open>undefined\<close>, which is not
  finite.
\<close>

definition toMinutes :: "(string \<Rightarrow> jsnum) \<Rightarrow> string \<Rightarrow> rat" where
  "toMinutes Number txt =
     (if txt = [] then 0
      else (case split_colon [] txt of
              h # m # rest \<Rightarrow>
                (case (Number h, Number m) of
                   (Num a, Num b) \<Rightarrow> a * 60 + b
                 | _ \<Rightarrow> 0)
            | _ \<Rightarrow> 0))"

text \<open>An instance of \<open>Number\<close> that is right on strings of decimal digits.\<close>

definition ex_Number :: "string \<Rightarrow> jsnum" where
  "ex_Number s = (if s \<noteq> [] \<and> list_all is_digit s then Num (of_nat (digits_val s)) else NaN)"

section \<open>Agent performance\<close>

text \<open>
  An object literal \<open>{}\<close> used as a dictionary from strings to strings. A read of a key that
  was never written finds the properties every object inherits; a write to \<open>__proto__\<close> of
  a string is ignored.
\<close>

definition obj_get :: "(string \<rightharpoonup> string) \<Rightarrow> string \<Rightarrow> jsval option" where
  "obj_get m k =
     (case m k of
        Some v \<Rightarrow> Some (Str v)
      | None \<Rightarrow> if k \<in> set object_prototype_names then Some Obj else None)"

definition obj_set :: "(string \<rightharpoonup> string) \<Rightarrow> string \<Rightarrow> string \<Rightarrow> (string \<rightharpoonup> string)" where
  "obj_set m k v = (if k = ''__proto__'' then m else m(k \<mapsto> v))"

text \<open>
  A row of \<open>fetchTicketMetricsForTickets\<close>, with the fields the two routes read. The fetch
  of this repository fills neither \<open>agentId\<close> nor \<open>assigneeId\<close> nor \<open>id\<close>; they are empty then.
\<close>

record metricRow =
  m_agentId :: string
  m_assigneeId :: string
  m_agentName :: string
  m_ticketNumber :: string
  m_id :: string
  m_resolutionTime :: string
  m_firstResponseTime :: string

text \<open>
  The accumulator of one agent. \<open>b_key\<close> is the key of the agent in the map: the assignee
  id in the server's route, the agent name in the routes module. The three \<open>Set\<close>s are lists
  without repetition in insertion order. The server's route keeps no first-response
  totals, and the display name it resolves from the ticket is left out.
\<close>

record bucket =
  b_key :: string
  ticketIds :: "string list"
  resolvedIds :: "string list"
  pendingIds :: "string list"
  totalResolutionHours :: rat
  resolutionCount :: nat
  totalFirstResponseHours :: rat
  firstResponseCount :: nat

definition new_bucket :: "string \<Rightarrow> bucket" where
  "new_bucket k =
     \<lparr> b_key = k, ticketIds = [], resolvedIds = [], pendingIds = [],
       totalResolutionHours = 0, resolutionCount = 0,
       totalFirstResponseHours = 0, firstResponseCount = 0 \<rparr>"

text \<open>\<open>set.add(x)\<close>\<close>

definition set_add :: "string \<Rightarrow> string list \<Rightarrow> string list" where
  "set_add x s = (if x \<in> set s then s else s @ [x])"

text \<open>
  The map of the agents, an object keyed by strings, as the list of its own properties in
  insertion order. (\<open>Object.values\<close> lists keys that look like array indices first; the
  order of the rows plays no part below.) \<open>put\<close> writes a property.
\<close>

type_synonym agentsMap = "(string \<times> bucket) list"

fun put :: "agentsMap \<Rightarrow> string \<Rightarrow> bucket \<Rightarrow> agentsMap" where
  "put [] k b = [(k, b)]"
| "put ((k', b') # am) k b = (if k' = k then (k, b) # am else (k', b') # put am k b)"

text \<open>
  \<open>if (!map[key]) map[key] = {...}\<close>: an inherited property is truthy, so for its name
  nothing is created.
\<close>

definition ensure :: "agentsMap \<Rightarrow> string \<Rightarrow> agentsMap" where
  "ensure am k =
     (if map_of am k = None \<and> k \<notin> set object_prototype_names then am @ [(k, new_bucket k)]
      else am)"

text \<open>\<open>RESOLVED_STATUSES.has(status)\<close>\<close>

fun is_resolved :: "jsval \<Rightarrow> bool" where
  "is_resolved (Str s) = (s \<in> set RESOLVED_STATUSES)"
| "is_resolved Obj = False"

text \<open>
  \<^verbatim>\<open>bucket.ticketIds.add(ticketId);\<close>
  \<^verbatim>\<open>if (<resolved>) bucket.resolvedIds.add(ticketId); else bucket.pendingIds.add(ticketId);\<close>
\<close>

definition add_ticket :: "bool \<Rightarrow> string \<Rightarrow> bucket \<Rightarrow> bucket" where
  "add_ticket res ticketId b =
     (let b1 = b\<lparr> ticketIds := set_add ticketId (ticketIds b) \<rparr>
      in if res then b1\<lparr> resolvedIds := set_add ticketId (resolvedIds b1) \<rparr>
         else b1\<lparr> pendingIds := set_add ticketId (pendingIds b1) \<rparr>)"

subsection \<open>The route of the server\<close>

text \<open>\<open>String(t.ticketNumber || t.id || "")\<close>\<close>

definition ticket_key :: "ticket \<Rightarrow> string" where
  "ticket_key t = or_else (ticketNumber t) (ticket_id t)"

text \<open>
  The first loop of \<open>/api/agent-performance\<close>, over \<open>allTickets\<close>: it records the status of
  the ticket in \<open>statusMapLocal\<close>, creates the bucket of the assignee, and classifies the
  ticket by the status it has just recorded. \<open>None\<close> is the exception thrown when the
  bucket read is an inherited property, whose \<open>ticketIds\<close> is undefined; the route then
  answers with status 500.
\<close>

definition base_step ::
  "(string \<rightharpoonup> string) \<Rightarrow> agentsMap \<Rightarrow> ticket \<Rightarrow> ((string \<rightharpoonup> string) \<times> agentsMap) option" where
  "base_step statusMapLocal baseAgentsMap t =
     (let key = ticket_key t;
          sm = (if key \<noteq> [] then obj_set statusMapLocal key (toLowerCase (status t))
                else statusMapLocal);
          agentKey = (case assigneeId t of None \<Rightarrow> ''unassigned'' | Some a \<Rightarrow> or_else a ''unassigned'');
          am = ensure baseAgentsMap agentKey
      in if key = [] then Some (sm, am)
         else (case map_of am agentKey of
                 None \<Rightarrow> None
               | Some b \<Rightarrow>
                   Some (sm, put am agentKey
                     (add_ticket (is_resolved (js_or (obj_get sm key) (Str []))) key b))))"

fun base_loop ::
  "(string \<rightharpoonup> string) \<Rightarrow> agentsMap \<Rightarrow> ticket list \<Rightarrow> ((string \<rightharpoonup> string) \<times> agentsMap) option" where
  "base_loop sm am [] = Some (sm, am)"
| "base_loop sm am (t # ts) =
     (case base_step sm am t of
        None \<Rightarrow> None
      | Some (sm', am') \<Rightarrow> base_loop sm' am' ts)"

text \<open>
  The second loop, over the metric rows: for a ticket with a resolved-like status it adds
  the parsed resolution time to the bucket of the row's agent,
  \<^verbatim>\<open>if (resHrs >= 0) { bucket.totalResolutionHours += resHrs; bucket.resolutionCount++; }\<close>
  When the bucket read is an inherited property the additions go to that object and no
  bucket changes.
\<close>

definition overlay_step :: "(string \<rightharpoonup> string) \<Rightarrow> agentsMap \<Rightarrow> metricRow \<Rightarrow> agentsMap" where
  "overlay_step statusMapLocal baseAgentsMap row =
     (let agentKey = or_else (m_agentId row) (or_else (m_assigneeId row) ''unassigned'');
          ticketId = or_else (m_ticketNumber row) (m_id row)
      in if ticketId = [] then baseAgentsMap
         else let am = ensure baseAgentsMap agentKey
              in (case map_of am agentKey of
                    None \<Rightarrow> am
                  | Some b \<Rightarrow>
                      if is_resolved (js_or (obj_get statusMapLocal ticketId) (Str []))
                      then let resHrs = parseZohoDurationToHours (m_resolutionTime row)
                           in if resHrs \<ge> 0
                              then put am agentKey
                                (b\<lparr> totalResolutionHours := totalResolutionHours b + resHrs,
                                    resolutionCount := resolutionCount b + 1 \<rparr>)
                              else am
                      else am))"

record agentRow =
  agentId :: string
  ticketsCreated :: nat
  ticketsResolved :: nat
  pendingCount :: nat
  avgResolutionHours :: rat
  avgResolutionText :: string

definition finalize :: "bucket \<Rightarrow> agentRow" where
  "finalize a =
     (let avgRes = (if resolutionCount a > 0
                    then totalResolutionHours a / of_nat (resolutionCount a) else 0)
      in \<lparr> agentId = b_key a,
           ticketsCreated = length (ticketIds a),
           ticketsResolved = length (resolvedIds a),
           pendingCount = length (pendingIds a),
           avgResolutionHours = avgRes,
           avgResolutionText = formatHoursToText avgRes \<rparr>)"

text \<open>
  The agents of the response, from \<open>allTickets\<close> as they are after the agent and date
  filters and from the metric rows fetched for them. Without tickets the route answers
  before it builds anything.
\<close>

definition agentPerformance :: "ticket list \<Rightarrow> metricRow list \<Rightarrow> agentRow list option" where
  "agentPerformance allTickets metricRows =
     (if allTickets = [] then Some []
      else (case base_loop Map.empty [] allTickets of
              None \<Rightarrow> None
            | Some (sm, am) \<Rightarrow>
                Some (map (\<lambda>(k, a). finalize a) (foldl (overlay_step sm) am metricRows))))"

subsection \<open>The route of the routes module\<close>

text \<open>
  \<open>registerAgentPerformanceRoutes\<close> builds \<open>ticketStatusMap\<close> from all tickets first, then
  aggregates the metric rows by agent name. A ticket is resolved when its recorded status is
  \<open>closed\<close> or \<open>resolved\<close>; durations are added when they are positive,
  \<^verbatim>\<open>if (resHrs > 0) { bucket.totalResolutionHours += resHrs; bucket.resolutionCount += 1; }\<close>
  The thread totals of this route are left out.
\<close>

definition ticketStatusMap :: "ticket list \<Rightarrow> (string \<rightharpoonup> string)" where
  "ticketStatusMap allTickets =
     foldl (\<lambda>m t. if ticket_key t = [] then m else obj_set m (ticket_key t) (toLowerCase (status t)))
       Map.empty allTickets"

definition closed_or_resolved :: "jsval \<Rightarrow> bool" where
  "closed_or_resolved st = (st = Str ''closed'' \<or> st = Str ''resolved'')"

definition add_durations :: "metricRow \<Rightarrow> bucket \<Rightarrow> bucket" where
  "add_durations row b =
     (let resHrs = parseZohoDurationToHours (m_resolutionTime row);
          b1 = (if resHrs > 0
                then b\<lparr> totalResolutionHours := totalResolutionHours b + resHrs,
                        resolutionCount := resolutionCount b + 1 \<rparr>
                else b);
          frHrs = parseZohoDurationToHours (m_firstResponseTime row)
      in if frHrs > 0
         then b1\<lparr> totalFirstResponseHours := totalFirstResponseHours b1 + frHrs,
                  firstResponseCount := firstResponseCount b1 + 1 \<rparr>
         else b1)"

definition route_step :: "(string \<rightharpoonup> string) \<Rightarrow> agentsMap \<Rightarrow> metricRow \<Rightarrow> agentsMap option" where
  "route_step sm agentsMap row =
     (let agentName = or_else (m_agentName row) ''Unassigned'';
          ticketId = or_else (m_ticketNumber row) (m_id row)
      in if ticketId = [] then Some agentsMap
         else let am = ensure agentsMap agentName
              in (case map_of am agentName of
                    None \<Rightarrow> None
                  | Some b \<Rightarrow>
                      Some (put am agentName
                        (add_durations row
                          (add_ticket (closed_or_resolved (js_or (obj_get sm ticketId) (Str [])))
                             ticketId b)))))"

fun route_loop :: "(string \<rightharpoonup> string) \<Rightarrow> agentsMap \<Rightarrow> metricRow list \<Rightarrow> agentsMap option" where
  "route_loop sm am [] = Some am"
| "route_loop sm am (r # rs) =
     (case route_step sm am r of None \<Rightarrow> None | Some am' \<Rightarrow> route_loop sm am' rs)"

record routeAgentRow =
  ra_agentName :: string
  ra_ticketsCreated :: nat
  ra_ticketsResolved :: nat
  ra_pendingTickets :: nat
  ra_avgResolutionHours :: rat
  ra_avgFirstResponseHours :: rat

definition route_finalize :: "bucket \<Rightarrow> routeAgentRow" where
  "route_finalize a =
     \<lparr> ra_agentName = b_key a,
       ra_ticketsCreated = length (ticketIds a),
       ra_ticketsResolved = length (resolvedIds a),
       ra_pendingTickets = length (pendingIds a),
       ra_avgResolutionHours =
         (if resolutionCount a > 0
          then totalResolutionHours a / of_nat (resolutionCount a) else 0),
       ra_avgFirstResponseHours =
         (if firstResponseCount a > 0
          then totalFirstResponseHours a / of_nat (firstResponseCount a) else 0) \<rparr>"

definition agentPerformanceRoute ::
  "ticket list \<Rightarrow> metricRow list \<Rightarrow> routeAgentRow list option" where
  "agentPerformanceRoute allTickets metricRows =
     (if allTickets = [] then Some []
      else (case route_loop (ticketStatusMap allTickets) [] metricRows of
              None \<Rightarrow> None
            | Some am \<Rightarrow> Some (map (\<lambda>(k, a). route_finalize a) am)))"

text \<open>The sets of a bucket: the ticket ids are the resolved and the pending ids together.\<close>

definition bucket_covered :: "bucket \<Rightarrow> bool" where
  "bucket_covered b =
     (distinct (ticketIds b) \<and> distinct (resolvedIds b) \<and> distinct (pendingIds b) \<and>
      set (ticketIds b) = set (resolvedIds b) \<union> set (pendingIds b))"

text \<open>
  The status recorded for a ticket id decides its class in the routes module; a bucket is
  classified when its resolved ids are the resolved ones by that status and its pending ids
  are not. A bucket is exact when the sizes of its three sets add up, and within a set of
  ids when moreover it holds ticket ids of that set only.
\<close>

definition recorded_resolved :: "(string \<rightharpoonup> string) \<Rightarrow> string \<Rightarrow> bool" where
  "recorded_resolved sm i = closed_or_resolved (js_or (obj_get sm i) (Str []))"

definition bucket_classified :: "(string \<rightharpoonup> string) \<Rightarrow> bucket \<Rightarrow> bool" where
  "bucket_classified sm b =
     (list_all (recorded_resolved sm) (resolvedIds b) \<and>
      list_all (\<lambda>i. \<not> recorded_resolved sm i) (pendingIds b))"

definition bucket_exact :: "bucket \<Rightarrow> bool" where
  "bucket_exact b = (length (ticketIds b) = length (resolvedIds b) + length (pendingIds b))"

definition bucket_within :: "string set \<Rightarrow> bucket \<Rightarrow> bool" where
  "bucket_within S b = (bucket_covered b \<and> bucket_exact b \<and> set (ticketIds b) \<subseteq> S)"

text \<open>
  Two closed tickets of one agent, and the metric rows fetched for them: the first has a
  resolution time of four hours, the second has none.
\<close>

definition ex_t101 :: ticket where
  "ex_t101 =
     \<lparr> ticket_id = ''T101'', ticketNumber = ''101'', status = ''Closed'',
       createdTime = ''2024-01-10T00:00:00Z'', closedTime = ''2024-01-15T00:00:00Z'',
       lastModifiedTime = [], assigneeId = Some ''7001'', departmentId = ''D1'' \<rparr>"

definition ex_t102 :: ticket where
  "ex_t102 =
     \<lparr> ticket_id = ''T102'', ticketNumber = ''102'', status = ''Closed'',
       createdTime = ''2024-01-10T00:00:00Z'', closedTime = ''2024-01-15T00:00:00Z'',
       lastModifiedTime = [], assigneeId = Some ''7001'', departmentId = ''D1'' \<rparr>"

definition ex_m101 :: metricRow where
  "ex_m101 =
     \<lparr> m_agentId = [], m_assigneeId = [], m_agentName = ''Asha Rao'', m_ticketNumber = ''101'',
       m_id = [], m_resolutionTime = ''04:00 hrs'', m_firstResponseTime = ''01:00 hrs'' \<rparr>"

definition ex_m102 :: metricRow where
  "ex_m102 =
     \<lparr> m_agentId = [], m_assigneeId = [], m_agentName = ''Asha Rao'', m_ticketNumber = ''102'',
       m_id = [], m_resolutionTime = [], m_firstResponseTime = [] \<rparr>"

text \<open>
  The ticket 101 as the active list still has it, open, beside its archived, closed copy.
\<close>

definition ex_t101_open :: ticket where
  "ex_t101_open =
     \<lparr> ticket_id = ''T101'', ticketNumber = ''101'', status = ''Open'',
       createdTime = ''2024-01-10T00:00:00Z'', closedTime = [],
       lastModifiedTime = [], assigneeId = Some ''7001'', departmentId = ''D1'' \<rparr>"

section \<open>Per-agent averages of the metrics table\<close>

text \<open>
  \<open>agentAverageMap\<close> of the table component, over the rows left by the filters and the
  search. \<open>zohoHrsToMinutes\<close> and \<open>minutesToHM\<close> come from the component's utilities and are
  parameters: the first gives the minutes of a duration text, or \<open>None\<close> for \<open>null\<close>.
\<close>

record avgAcc =
  frSum :: rat
  frCount :: nat
  resSum :: rat
  resCount :: nat

text \<open>
  The body of the loop. For a name that every object inherits as a property nothing is
  created, the additions go to the inherited object, and no entry of \<open>acc\<close> changes.
\<close>

definition average_step ::
  "(string \<Rightarrow> rat option) \<Rightarrow> (string \<rightharpoonup> avgAcc) \<Rightarrow> viewRow \<Rightarrow> (string \<rightharpoonup> avgAcc)" where
  "average_step zohoHrsToMinutes acc row =
     (let name = or_else (v_agentName row) ''Unknown''
      in if acc name = None \<and> name \<in> set object_prototype_names then acc
         else let a0 = (case acc name of
                          None \<Rightarrow> \<lparr> frSum = 0, frCount = 0, resSum = 0, resCount = 0 \<rparr>
                        | Some a \<Rightarrow> a);
                  a1 = (case zohoHrsToMinutes (v_firstResponseTime row) of
                          None \<Rightarrow> a0
                        | Some frMin \<Rightarrow> a0\<lparr> frSum := frSum a0 + frMin, frCount := frCount a0 + 1 \<rparr>);
                  a2 = (case zohoHrsToMinutes (v_resolutionTime row) of
                          None \<Rightarrow> a1
                        | Some resMin \<Rightarrow>
                            a1\<lparr> resSum := resSum a1 + resMin, resCount := resCount a1 + 1 \<rparr>)
              in acc(name \<mapsto> a2))"

text \<open>\<open>Math.round\<close>: to the nearest integer, halves upwards.\<close>

definition js_round :: "rat \<Rightarrow> int" where
  "js_round x = \<lfloor>x + 1 / 2\<rfloor>"

record avgOut =
  avgFirstResponseHM :: string
  avgFirstResponseMin :: "int option"
  avgResolutionHM :: string
  avgResolutionMin :: "int option"

definition average_out :: "(int \<Rightarrow> string) \<Rightarrow> avgAcc \<Rightarrow> avgOut" where
  "average_out minutesToHM v =
     (let frAvgMin = (if frCount v \<noteq> 0 then Some (js_round (frSum v / of_nat (frCount v))) else None);
          resAvgMin = (if resCount v \<noteq> 0 then Some (js_round (resSum v / of_nat (resCount v)))
                       else None)
      in \<lparr> avgFirstResponseHM = (case frAvgMin of Some n \<Rightarrow> minutesToHM n | None \<Rightarrow> ''-''),
           avgFirstResponseMin = frAvgMin,
           avgResolutionHM = (case resAvgMin of Some n \<Rightarrow> minutesToHM n | None \<Rightarrow> ''-''),
           avgResolutionMin = resAvgMin \<rparr>)"

definition agentAverageMap ::
  "(string \<Rightarrow> rat option) \<Rightarrow> (int \<Rightarrow> string) \<Rightarrow> viewRow list \<Rightarrow> (string \<rightharpoonup> avgOut)" where
  "agentAverageMap zohoHrsToMinutes minutesToHM sortedMetricsRows name =
     map_option (average_out minutesToHM)
       (foldl (average_step zohoHrsToMinutes) Map.empty sortedMetricsRows name)"

text \<open>The sum and the count kept for an agent, zero when the agent has no entry.\<close>

definition acc_fr :: "(string \<rightharpoonup> avgAcc) \<Rightarrow> string \<Rightarrow> rat \<times> nat" where
  "acc_fr acc name = (case acc name of None \<Rightarrow> (0, 0) | Some a \<Rightarrow> (frSum a, frCount a))"

definition acc_res :: "(string \<rightharpoonup> avgAcc) \<Rightarrow> string \<Rightarrow> rat \<times> nat" where
  "acc_res acc name = (case acc name of None \<Rightarrow> (0, 0) | Some a \<Rightarrow> (resSum a, resCount a))"

text \<open>
  The rows of an agent, the number of them that have a value in a duration field, and the
  sum of those values.
\<close>

definition rows_of :: "string \<Rightarrow> viewRow list \<Rightarrow> viewRow list" where
  "rows_of name rows = filter (\<lambda>r. or_else (v_agentName r) ''Unknown'' = name) rows"

definition present_count :: "(string \<Rightarrow> rat option) \<Rightarrow> (viewRow \<Rightarrow> string) \<Rightarrow> viewRow list \<Rightarrow> nat" where
  "present_count z field rows = length (filter (\<lambda>r. z (field r) \<noteq> None) rows)"

definition present_sum :: "(string \<Rightarrow> rat option) \<Rightarrow> (viewRow \<Rightarrow> string) \<Rightarrow> viewRow list \<Rightarrow> rat" where
  "present_sum z field rows = sum_list (map (\<lambda>r. case z (field r) of None \<Rightarrow> 0 | Some x \<Rightarrow> x) rows)"

text \<open>
  Three tickets of one agent with first responses after one hour, never, and after three
  hours, and an instance of the two parameters that is right on them.
\<close>

definition ex_zohoHrsToMinutes :: "string \<Rightarrow> rat option" where
  "ex_zohoHrsToMinutes s = map_of [(''01:00 hrs'', 60), (''03:00 hrs'', 180)] s"

definition ex_minutesToHM :: "int \<Rightarrow> string" where
  "ex_minutesToHM n = show_nat (nat n div 60) @ '':'' @ padStart2 (show_nat (nat n mod 60))"

definition ex_row_fr :: "string \<Rightarrow> viewRow" where
  "ex_row_fr fr =
     \<lparr> v_agentName = ''Asha Rao'', v_ticketNumber = ''123'', v_status = ''Open'',
       v_departmentName = ''IT'', v_createdTime = ''2024-02-01T00:00:00Z'', v_closedTime = [],
       v_firstResponseTime = fr, v_resolutionTime = [] \<rparr>"

chapter \<open>Verified properties\<close>

section \<open>Properties of the merge\<close>

lemma dedupe_ids: "row_id ` set (dedupe seen rs) = row_id ` set rs - seen"
  by (induction rs arbitrary: seen) auto

lemma dedupe_drops_seen: "r \<in> set (dedupe seen ys) \<Longrightarrow> row_id r \<notin> seen"
  using dedupe_ids [of seen ys] by blast

lemma dedupe_distinct: "distinct (map row_id (dedupe seen rs))"
  by (induction rs arbitrary: seen) (auto dest: dedupe_drops_seen)

lemma dedupe_subset: "set (dedupe seen rs) \<subseteq> set rs"
  by (induction rs arbitrary: seen) auto

lemma dedupe_append:
  "dedupe seen (xs @ ys) = dedupe seen xs @ dedupe (seen \<union> set (map row_id xs)) ys"
  by (induction xs arbitrary: seen) (auto simp: insert_absorb)

lemma archivedRows_source: "r \<in> set (archivedRows ts) \<Longrightarrow> row_source r = Archived"
  by (auto simp: archivedRows_def mapTicket_def)

lemma archivedRows_ids: "map row_id (archivedRows ts) = map ticket_id ts"
  by (simp add: archivedRows_def mapTicket_def)

lemma activeClosedRows_ids: "map row_id (activeClosedRows ts) = map ticket_id ts"
  by (simp add: activeClosedRows_def mapTicket_def)

text \<open>
  C1. For every pair of inputs the merged rows carry each ticket id of either input exactly
  once (the ids of the output are pairwise distinct and are exactly the ids of the inputs),
  and a row whose id occurs among the archived tickets is an archived-sourced row.
\<close>

theorem allRows_unique_archived_first:
  "distinct (map row_id (allRows ar ac)) \<and>
   set (map row_id (allRows ar ac)) = set (map ticket_id ar) \<union> set (map ticket_id ac) \<and>
   (\<forall>r \<in> set (allRows ar ac).
      row_id r \<in> set (map ticket_id ar) \<longrightarrow>
        row_source r = Archived \<and> r \<in> set (archivedRows ar))"
proof -
  have ids: "set (map row_id (allRows ar ac)) = set (map ticket_id ar) \<union> set (map ticket_id ac)"
    using dedupe_ids [of "{}" "archivedRows ar @ activeClosedRows ac"]
      arg_cong [OF archivedRows_ids [of ar], of set]
      arg_cong [OF activeClosedRows_ids [of ac], of set]
    by (simp add: allRows_def image_Un)
  have split: "allRows ar ac =
      dedupe {} (archivedRows ar) @ dedupe (set (map ticket_id ar)) (activeClosedRows ac)"
    unfolding allRows_def dedupe_append by (simp add: archivedRows_ids)
  have arch: "row_source r = Archived \<and> r \<in> set (archivedRows ar)"
    if r: "r \<in> set (allRows ar ac)" and i: "row_id r \<in> set (map ticket_id ar)" for r
  proof -
    from r split have "r \<in> set (dedupe {} (archivedRows ar)) \<or>
        r \<in> set (dedupe (set (map ticket_id ar)) (activeClosedRows ac))"
      by simp
    with i dedupe_drops_seen have "r \<in> set (dedupe {} (archivedRows ar))"
      by blast
    with dedupe_subset have "r \<in> set (archivedRows ar)"
      by blast
    then show ?thesis
      by (simp add: archivedRows_source)
  qed
  show ?thesis
    using ids arch by (simp add: allRows_def dedupe_distinct del: set_map)
qed

theorem allRows_unique_archived_first_witness:
  "mapTicket ex_A1_archived Archived \<in> set (allRows [ex_A1_archived] [ex_A1_active, ex_B2_active]) \<and>
   row_id (mapTicket ex_A1_archived Archived) \<in> set (map ticket_id [ex_A1_archived]) \<and>
   row_source (mapTicket ex_A1_archived Archived) = Archived \<and>
   allRows [ex_A1_archived] [ex_A1_active, ex_B2_active] =
     [mapTicket ex_A1_archived Archived, mapTicket ex_B2_active ActiveClosed] \<and>
   distinct (map row_id (allRows [ex_A1_archived] [ex_A1_active, ex_B2_active]))"
  using allRows_unique_archived_first [of "[ex_A1_archived]" "[ex_A1_active, ex_B2_active]"]
  by (simp add: allRows_def archivedRows_def activeClosedRows_def mapTicket_def
      ex_A1_archived_def ex_A1_active_def ex_B2_active_def)

section \<open>Status normalisation\<close>

lemma toLowerCase_examples:
  "toLowerCase ''Resolved'' = ''resolved''"
  "toLowerCase ''ON HOLD'' = ''on hold''"
  "toLowerCase ''On Hold'' = ''on hold''"
  "toLowerCase ''Open'' = ''open''"
  by (simp_all add: toLowerCase_def lower_char_def)

lemma statusMap_get_known:
  "map_of statusMap k = Some v \<Longrightarrow> statusMap_get k = Some (Str v)"
  by (simp add: statusMap_get_def)

lemma statusMap_get_unknown:
  assumes "k \<notin> set (map fst statusMap)" and "k \<notin> set object_prototype_names"
  shows "statusMap_get k = None"
proof -
  from assms(1) have "map_of statusMap k = None"
    by (simp add: map_of_eq_None_iff)
  with assms(2) show ?thesis
    by (simp add: statusMap_get_def)
qed

lemma statusMap_keys:
  "map_of statusMap ''on hold'' = Some ''hold''"
  "map_of statusMap ''hold'' = Some ''hold''"
  "map_of statusMap ''in progress'' = Some ''inProgress''"
  "map_of statusMap [] = Some ''unassigned''"
  "map_of statusMap ''escalated'' = Some ''escalated''"
  "map_of statusMap ''closed'' = Some ''closed''"
  "map_of statusMap ''open'' = Some ''open''"
  by (simp_all add: statusMap_def)

lemma normalised_known:
  "map_of statusMap (toLowerCase s) = Some v \<Longrightarrow> v \<noteq> [] \<Longrightarrow>
   normalizedStatus s = Str v \<and> normalized s = Str v"
  by (simp add: normalizedStatus_def normalized_def js_or_def statusMap_get_known)

lemma normalised_unknown:
  assumes "toLowerCase s \<notin> set (map fst statusMap)"
    and "toLowerCase s \<notin> set object_prototype_names"
  shows "normalizedStatus s = Str ''unassigned'' \<and> normalized s = Str (toLowerCase s)"
  using statusMap_get_unknown [OF assms]
  by (simp add: normalizedStatus_def normalized_def js_or_def)

lemma normalizedStatus_examples:
  "normalizedStatus ''Open'' = Str ''open''"
  "normalizedStatus ''On Hold'' = Str ''hold''"
  using normalised_known [of "''Open''" "''open''"] normalised_known [of "''On Hold''" "''hold''"]
  by (simp_all add: toLowerCase_examples statusMap_keys)

text \<open>
  The status \<open>Resolved\<close> is not a key of \<open>statusMap\<close>; the ticket loop turns it into
  \<open>unassigned\<close>, not into \<open>resolved\<close>.
\<close>

theorem normalizedStatus_collapses_unknown:
  "normalizedStatus ''Resolved'' = Str ''unassigned'' \<and>
   normalizedStatus ''Resolved'' \<noteq> Str (toLowerCase ''Resolved'')"
  by (simp add: normalizedStatus_def toLowerCase_examples statusMap_get_def statusMap_def js_or_def
      object_prototype_names_def)

text \<open>
  C6, as the code has it. Both normalisations look the lower-cased status up in
  \<open>statusMap\<close>, so they do not depend on letter case, and they map \<open>on hold\<close> and \<open>hold\<close> to
  \<open>hold\<close>, \<open>in progress\<close> to \<open>inProgress\<close>, the empty status to \<open>unassigned\<close>, \<open>escalated\<close>
  to \<open>escalated\<close> and \<open>closed\<close> to \<open>closed\<close>. For a status that is no key of the table (and
  no inherited property name of a JavaScript object) the ticket loop of the members endpoint
  (\<open>statusMap[rawStatus] || "unassigned"\<close>) gives \<open>unassigned\<close>, and the per-agent age filters
  (\<open>statusMap[rawStatus] || rawStatus\<close>) give the status in lower case.
\<close>

theorem statusMap_normalisation:
  "(toLowerCase a = toLowerCase b \<longrightarrow>
      normalizedStatus a = normalizedStatus b \<and> normalized a = normalized b) \<and>
   (toLowerCase s = ''on hold'' \<or> toLowerCase s = ''hold'' \<longrightarrow>
      normalizedStatus s = Str ''hold'' \<and> normalized s = Str ''hold'') \<and>
   (toLowerCase s = ''in progress'' \<longrightarrow>
      normalizedStatus s = Str ''inProgress'' \<and> normalized s = Str ''inProgress'') \<and>
   (s = [] \<longrightarrow> normalizedStatus s = Str ''unassigned'' \<and> normalized s = Str ''unassigned'') \<and>
   (toLowerCase s = ''escalated'' \<longrightarrow>
      normalizedStatus s = Str ''escalated'' \<and> normalized s = Str ''escalated'') \<and>
   (toLowerCase s = ''closed'' \<longrightarrow>
      normalizedStatus s = Str ''closed'' \<and> normalized s = Str ''closed'') \<and>
   (toLowerCase s \<notin> set (map fst statusMap) \<and> toLowerCase s \<notin> set object_prototype_names \<longrightarrow>
      normalizedStatus s = Str ''unassigned'' \<and> normalized s = Str (toLowerCase s))"
proof (intro conjI impI)
  assume "toLowerCase a = toLowerCase b"
  then show "normalizedStatus a = normalizedStatus b" "normalized a = normalized b"
    by (simp_all add: normalizedStatus_def normalized_def)
next
  assume "toLowerCase s = ''on hold'' \<or> toLowerCase s = ''hold''"
  then have "map_of statusMap (toLowerCase s) = Some ''hold''"
    using statusMap_keys(1,2) by metis
  from normalised_known [OF this]
  show "normalizedStatus s = Str ''hold''" "normalized s = Str ''hold''" by simp_all
next
  assume "toLowerCase s = ''in progress''"
  then have "map_of statusMap (toLowerCase s) = Some ''inProgress''"
    using statusMap_keys(3) by metis
  from normalised_known [OF this]
  show "normalizedStatus s = Str ''inProgress''" "normalized s = Str ''inProgress''" by simp_all
next
  assume "s = []"
  then have "map_of statusMap (toLowerCase s) = Some ''unassigned''"
    using statusMap_keys(4) by (simp add: toLowerCase_def)
  from normalised_known [OF this]
  show "normalizedStatus s = Str ''unassigned''" "normalized s = Str ''unassigned''" by simp_all
next
  assume "toLowerCase s = ''escalated''"
  then have "map_of statusMap (toLowerCase s) = Some ''escalated''"
    using statusMap_keys(5) by metis
  from normalised_known [OF this]
  show "normalizedStatus s = Str ''escalated''" "normalized s = Str ''escalated''" by simp_all
next
  assume "toLowerCase s = ''closed''"
  then have "map_of statusMap (toLowerCase s) = Some ''closed''"
    using statusMap_keys(6) by metis
  from normalised_known [OF this]
  show "normalizedStatus s = Str ''closed''" "normalized s = Str ''closed''" by simp_all
next
  assume "toLowerCase s \<notin> set (map fst statusMap) \<and> toLowerCase s \<notin> set object_prototype_names"
  then show "normalizedStatus s = Str ''unassigned''" "normalized s = Str (toLowerCase s)"
    using normalised_unknown [of s] by simp_all
qed

theorem statusMap_normalisation_witness:
  "toLowerCase ''Resolved'' \<notin> set (map fst statusMap) \<and>
   toLowerCase ''Resolved'' \<notin> set object_prototype_names \<and>
   normalizedStatus ''Resolved'' = Str ''unassigned'' \<and>
   normalized ''Resolved'' = Str ''resolved'' \<and>
   toLowerCase ''ON HOLD'' = toLowerCase ''On Hold'' \<and>
   normalizedStatus ''ON HOLD'' = normalizedStatus ''On Hold'' \<and>
   normalizedStatus ''ON HOLD'' = Str ''hold''"
  using statusMap_normalisation [of "''ON HOLD''" "''On Hold''" "''Resolved''"]
    statusMap_normalisation [of "''ON HOLD''" "''On Hold''" "''ON HOLD''"]
  by (simp add: toLowerCase_examples normalizedStatus_examples statusMap_def
      object_prototype_names_def)

section \<open>Aging buckets\<close>

lemma counts_agree_new: "counts_agree new_agingCounts"
  by (simp add: counts_agree_def new_agingCounts_def)

lemma counts_agree_fine: "counts_agree ac \<Longrightarrow> counts_agree (fine_branch st a n ac)"
  by (simp add: counts_agree_def fine_branch_def push_fine_def)

lemma counts_agree_coarse: "counts_agree ac \<Longrightarrow> counts_agree (coarse_branch st a n ac)"
  by (auto simp: counts_agree_def coarse_branch_def push_coarse_def incr_coarse_def
      split: option.splits)

lemma counts_agree_accumulate: "counts_agree ac \<Longrightarrow> counts_agree (accumulate ns age n ac)"
  by (auto simp: accumulate_def Let_def counts_agree_fine counts_agree_coarse
      split: option.splits)

lemma aging_step_agree:
  assumes "\<And>k e. tab k = Some e \<Longrightarrow> counts_agree e"
    and "aging_step now pd tab t k = Some e"
  shows "counts_agree e"
  using assms
  by (auto simp: aging_step_def Let_def counts_agree_accumulate counts_agree_new
      split: if_splits option.splits)

lemma foldl_aging_agree:
  "(\<And>k e. tab k = Some e \<Longrightarrow> counts_agree e) \<Longrightarrow>
   foldl (aging_step now pd) tab ts k = Some e \<Longrightarrow> counts_agree e"
proof (induction ts arbitrary: tab)
  case Nil
  then show ?case by simp
next
  case (Cons t ts)
  show ?case
  proof (rule Cons.IH [of "aging_step now pd tab t"])
    show "counts_agree e'" if "aging_step now pd tab t k' = Some e'" for k' e'
      using aging_step_agree [OF Cons.prems(1) that] .
    show "foldl (aging_step now pd) (aging_step now pd tab t) ts k = Some e"
      using Cons.prems(2) by simp
  qed
qed

lemma ex_ageDays:
  "ageDays ex_now ex_parseDate ex_open30 = Some (Num 30)"
  "ageDays ex_now ex_parseDate ex_hold8 = Some (Num 8)"
  by (simp_all add: ageDays_def ex_now_def ex_parseDate_def ex_open30_def ex_hold8_def)

lemma ex_assignee_key:
  "assignee_key ex_open30 = ''7001''"
  "assignee_key ex_hold8 = ''7002''"
  by (simp_all add: assignee_key_def ex_open30_def ex_hold8_def toLowerCase_def lower_char_def)

lemma ex_ticket_fields:
  "status ex_open30 = ''Open''" "ticketNumber ex_open30 = ''101''" "departmentId ex_open30 = ''D1''"
  "status ex_hold8 = ''On Hold''" "ticketNumber ex_hold8 = ''102''" "departmentId ex_hold8 = []"
  by (simp_all add: ex_open30_def ex_hold8_def)

lemma ex_aging_run:
  "userDeptAgingCounts ex_now ex_parseDate [ex_open30, ex_hold8] (''7001'', ''D1'') =
     Some (accumulate (Str ''open'') (Some (Num 30)) ''101'' new_agingCounts)"
  "userDeptAgingCounts ex_now ex_parseDate [ex_open30] (''7001'', ''D1'') =
     Some (accumulate (Str ''open'') (Some (Num 30)) ''101'' new_agingCounts)"
  by (simp_all add: userDeptAgingCounts_def aging_step_def Let_def ex_ageDays ex_assignee_key
      ex_ticket_fields or_else_def normalizedStatus_examples)

lemma ex_accumulate_open30:
  "coarseCount (accumulate (Str ''open'') (Some (Num 30)) n ac) Open BetweenSixteenAndThirtyDays =
     coarseCount ac Open BetweenSixteenAndThirtyDays + 1"
  "coarseTickets (accumulate (Str ''open'') (Some (Num 30)) n ac) Open BetweenSixteenAndThirtyDays =
     coarseTickets ac Open BetweenSixteenAndThirtyDays @ [n]"
  "coarseCount (accumulate (Str ''open'') (Some (Num 30)) n ac) Open OlderThanThirtyDays =
     coarseCount ac Open OlderThanThirtyDays"
  by (simp_all add: accumulate_def fine_branch_def coarse_branch_def coarse_bucket_def
      push_fine_def push_coarse_def incr_coarse_def)

text \<open>
  C4. Every entry of \<open>userDeptAgingCounts\<close>, for any agent key, department, status and
  coarse bucket, stores a count equal to the length of the ticket list stored beside it.
  (The fine buckets store lists only.)
\<close>

theorem aging_count_is_list_length:
  "userDeptAgingCounts now parseDate tickets (agent, dept) = Some e \<Longrightarrow>
   coarseCount e st b = length (coarseTickets e st b)"
  using foldl_aging_agree [of Map.empty now parseDate tickets "(agent, dept)" e]
  by (simp add: userDeptAgingCounts_def counts_agree_def)

theorem aging_count_is_list_length_witness:
  "userDeptAgingCounts ex_now ex_parseDate [ex_open30, ex_hold8] (''7001'', ''D1'') =
     Some (accumulate (Str ''open'') (Some (Num 30)) ''101'' new_agingCounts) \<and>
   coarseCount (accumulate (Str ''open'') (Some (Num 30)) ''101'' new_agingCounts)
       Open BetweenSixteenAndThirtyDays =
     length (coarseTickets (accumulate (Str ''open'') (Some (Num 30)) ''101'' new_agingCounts)
       Open BetweenSixteenAndThirtyDays) \<and>
   coarseTickets (accumulate (Str ''open'') (Some (Num 30)) ''101'' new_agingCounts)
       Open BetweenSixteenAndThirtyDays = [''101'']"
  using aging_count_is_list_length [of ex_now ex_parseDate "[ex_open30, ex_hold8]" "''7001''" "''D1''"
      "accumulate (Str ''open'') (Some (Num 30)) ''101'' new_agingCounts"
      Open BetweenSixteenAndThirtyDays]
  by (simp add: ex_aging_run ex_accumulate_open30 new_agingCounts_def)

text \<open>
  An open ticket that is exactly 30 days old is counted, and listed, in the bucket of 16 to
  30 days.
\<close>

theorem age_30_is_in_second_bucket:
  "userDeptAgingCounts ex_now ex_parseDate [ex_open30] (''7001'', ''D1'') \<noteq> None \<and>
   ageDays ex_now ex_parseDate ex_open30 = Some (Num 30) \<and>
   coarseCount (the (userDeptAgingCounts ex_now ex_parseDate [ex_open30] (''7001'', ''D1'')))
     Open BetweenSixteenAndThirtyDays = 1 \<and>
   coarseTickets (the (userDeptAgingCounts ex_now ex_parseDate [ex_open30] (''7001'', ''D1'')))
     Open BetweenSixteenAndThirtyDays = [''101'']"
  by (simp add: ex_aging_run ex_accumulate_open30 ex_ageDays new_agingCounts_def)

text \<open>
  C5, as the code has it. In the coarse granularity an age with \<open>0 \<le> age < 16\<close> goes to the
  first bucket and an age with \<open>16 \<le> age < 31\<close> to the second; the third bucket is tested
  with \<open>age > 30\<close> after the second, so it receives exactly the ages from 31 on; a negative
  age and an unparsable date go to no bucket. An age of exactly 30 days is counted in the
  second bucket and not in the third.
\<close>

theorem coarse_bucket_boundaries:
  "(0 \<le> a \<and> a < 16 \<longrightarrow> coarse_bucket (Num a) = Some BetweenOneAndFifteenDays) \<and>
   (16 \<le> a \<and> a < 31 \<longrightarrow> coarse_bucket (Num a) = Some BetweenSixteenAndThirtyDays) \<and>
   (coarse_bucket (Num a) = Some OlderThanThirtyDays \<longleftrightarrow> 31 \<le> a) \<and>
   (coarse_bucket (Num a) = None \<longleftrightarrow> a < 0) \<and>
   coarse_bucket NaN = None \<and>
   coarse_bucket (Num 30) = Some BetweenSixteenAndThirtyDays \<and>
   coarseCount (coarse_branch st (Num 30) n ac) st BetweenSixteenAndThirtyDays =
     coarseCount ac st BetweenSixteenAndThirtyDays + 1 \<and>
   coarseCount (coarse_branch st (Num 30) n ac) st OlderThanThirtyDays =
     coarseCount ac st OlderThanThirtyDays"
  by (auto simp: coarse_bucket_def coarse_branch_def push_coarse_def incr_coarse_def)

theorem coarse_bucket_boundaries_witness:
  "(16::rat) \<le> 30 \<and> (30::rat) < 31 \<and> \<not> (31::rat) \<le> 30 \<and>
   coarse_bucket (Num 30) = Some BetweenSixteenAndThirtyDays \<and>
   coarse_bucket (Num 30) \<noteq> Some OlderThanThirtyDays \<and>
   coarse_bucket (Num 5) = Some BetweenOneAndFifteenDays \<and>
   coarse_bucket (Num 31) = Some OlderThanThirtyDays"
  using coarse_bucket_boundaries [of 30] coarse_bucket_boundaries [of 5]
    coarse_bucket_boundaries [of 31]
  by simp

section \<open>Search\<close>

lemma lower_char_digit: "is_digit (lower_char c) \<Longrightarrow> lower_char c = c"
  by (auto simp: lower_char_def is_digit_def split: option.splits if_splits)

lemma toLowerCase_digits: "list_all is_digit (toLowerCase s) \<Longrightarrow> toLowerCase s = s"
  by (induction s) (auto simp: toLowerCase_def intro: lower_char_digit)

lemma archivedSearch_mem:
  "trim searchTerm \<noteq> [] \<Longrightarrow>
   row \<in> set (archivedSearch searchTerm rows) \<longleftrightarrow>
     row \<in> set rows \<and> archivedMatch (toLowerCase (trim searchTerm)) row"
  by (simp add: archivedSearch_def Let_def)

lemma metricsSearch_mem:
  "trim searchTerm \<noteq> [] \<Longrightarrow>
   row \<in> set (metricsSearch searchTerm rows) \<longleftrightarrow>
     row \<in> set rows \<and> str_includes (combined row) (toLowerCase (trim searchTerm))"
  by (simp add: metricsSearch_def Let_def toLowerCase_def)

lemma numeric_query_exact:
  assumes "isNumeric (toLowerCase raw)"
  shows "archivedMatch (toLowerCase raw) row \<longleftrightarrow> trim (v_ticketNumber row) = raw"
proof -
  from assms have d: "list_all is_digit (toLowerCase raw)"
    by (simp add: isNumeric_def)
  then have r: "toLowerCase raw = raw"
    by (rule toLowerCase_digits)
  have "toLowerCase (trim (v_ticketNumber row)) = raw \<longleftrightarrow> trim (v_ticketNumber row) = raw"
  proof
    assume e: "toLowerCase (trim (v_ticketNumber row)) = raw"
    with d r have "list_all is_digit (toLowerCase (trim (v_ticketNumber row)))" by simp
    from toLowerCase_digits [OF this] e show "trim (v_ticketNumber row) = raw" by simp
  next
    assume "trim (v_ticketNumber row) = raw"
    with r show "toLowerCase (trim (v_ticketNumber row)) = raw" by simp
  qed
  with assms r show ?thesis
    by (simp add: archivedMatch_def Let_def)
qed

lemma text_query_prefix:
  "\<not> isNumeric q \<Longrightarrow>
   archivedMatch q row \<longleftrightarrow> (\<exists>w \<in> set (words (toLowerCase (v_agentName row))). prefix q w)"
  by (simp add: archivedMatch_def Let_def list_ex_iff)

text \<open>The tokens of an agent name are its non-empty runs without white space.\<close>

lemma split_ws_tokens:
  "w \<in> set (split_ws cur s) \<Longrightarrow> list_all (\<lambda>c. \<not> is_space c) cur \<Longrightarrow>
   w \<noteq> [] \<and> list_all (\<lambda>c. \<not> is_space c) w"
proof (induction cur s rule: split_ws.induct)
  case (1 cur)
  then show ?case by (cases "cur = []") simp_all
next
  case (2 cur c cs)
  show ?case
  proof (cases "is_space c")
    case sp: True
    show ?thesis
    proof (cases "cur = []")
      case True
      with sp 2 show ?thesis by simp
    next
      case False
      with sp 2 show ?thesis by fastforce
    qed
  next
    case False
    with 2 show ?thesis by simp
  qed
qed

lemma words_tokens: "w \<in> set (words s) \<Longrightarrow> w \<noteq> [] \<and> list_all (\<lambda>c. \<not> is_space c) w"
  using split_ws_tokens [of w "[]" s] by (simp add: words_def)

lemma ex_archivedSearch:
  "archivedSearch '' 123 '' [ex_row123, ex_row1234] = [ex_row123]"
  "archivedSearch ''ash'' [ex_row123, ex_row1234] = [ex_row123, ex_row1234]"
  "archivedSearch ''sha'' [ex_row123, ex_row1234] = []"
  by (simp_all add: archivedSearch_def archivedMatch_def trim_def is_space_def toLowerCase_def
      lower_char_def isNumeric_def is_digit_def ex_row123_def ex_row1234_def words_def)

text \<open>
  The metrics table's search keeps the ticket 1234 for the query 123: it looks for a
  substring.
\<close>

theorem metricsSearch_matches_substring:
  "metricsSearch ''123'' [ex_row123, ex_row1234] = [ex_row123, ex_row1234]"
  by (simp add: metricsSearch_def combined_def trim_def is_space_def toLowerCase_def lower_char_def
      ex_row123_def ex_row1234_def)

text \<open>
  C7, as the code has it. In the archived table's search a non-empty trimmed query that is
  purely numeric keeps exactly the rows whose trimmed ticket number equals it, and any
  other non-empty query keeps exactly the rows of which some white-space delimited token of
  the lower-cased agent name starts with the lower-cased query. The metrics table's search
  keeps exactly the rows whose combined, lower-cased fields contain the lower-cased query
  anywhere.
\<close>

theorem search_policy:
  "trim searchTerm \<noteq> [] \<Longrightarrow>
   (isNumeric (toLowerCase (trim searchTerm)) \<longrightarrow>
      (row \<in> set (archivedSearch searchTerm rows) \<longleftrightarrow>
         row \<in> set rows \<and> trim (v_ticketNumber row) = trim searchTerm)) \<and>
   (\<not> isNumeric (toLowerCase (trim searchTerm)) \<longrightarrow>
      (row \<in> set (archivedSearch searchTerm rows) \<longleftrightarrow>
         row \<in> set rows \<and>
         (\<exists>w \<in> set (words (toLowerCase (v_agentName row))).
            prefix (toLowerCase (trim searchTerm)) w))) \<and>
   (row \<in> set (metricsSearch searchTerm rows) \<longleftrightarrow>
      row \<in> set rows \<and> str_includes (combined row) (toLowerCase (trim searchTerm)))"
  using numeric_query_exact [of "trim searchTerm" row]
    text_query_prefix [of "toLowerCase (trim searchTerm)" row]
  by (simp add: archivedSearch_mem metricsSearch_mem)

lemma ex_trim:
  "trim '' 123 '' = ''123''" "trim ''ash'' = ''ash''"
  by (simp_all add: trim_def is_space_def)

lemma ex_isNumeric:
  "isNumeric (toLowerCase ''123'')" "\<not> isNumeric (toLowerCase ''ash'')"
  by (simp_all add: isNumeric_def is_digit_def toLowerCase_def lower_char_def)

theorem search_policy_witness:
  "trim '' 123 '' \<noteq> [] \<and> isNumeric (toLowerCase (trim '' 123 '')) \<and>
   ex_row123 \<in> set (archivedSearch '' 123 '' [ex_row123, ex_row1234]) \<and>
   trim (v_ticketNumber ex_row123) = trim '' 123 '' \<and>
   ex_row1234 \<notin> set (archivedSearch '' 123 '' [ex_row123, ex_row1234]) \<and>
   trim ''ash'' \<noteq> [] \<and> \<not> isNumeric (toLowerCase (trim ''ash'')) \<and>
   ex_row1234 \<in> set (archivedSearch ''ash'' [ex_row123, ex_row1234])"
  using search_policy [of "'' 123 ''" ex_row123 "[ex_row123, ex_row1234]"]
    search_policy [of "''ash''" ex_row1234 "[ex_row123, ex_row1234]"]
  by (simp add: ex_trim ex_isNumeric ex_archivedSearch, simp add: ex_row123_def ex_row1234_def)

section \<open>Pagination\<close>

lemma totalPages_div:
  "totalPages rows pageSize = max 1 (- ((- int (length rows)) div int pageSize))"
  using ceiling_divide_eq_div [of "int (length rows)" "int pageSize", where ?'a = rat]
  by (simp add: totalPages_def)

lemma neg_div_bounds:
  fixes n ps :: int
  assumes "0 < ps"
  shows "n \<le> (- ((- n) div ps)) * ps" and "(- ((- n) div ps) - 1) * ps < n"
proof -
  define q r where "q = (- n) div ps" and "r = (- n) mod ps"
  have e: "- n = q * ps + r"
    unfolding q_def r_def by simp
  have m: "0 \<le> r" "r < ps"
    using assms unfolding r_def by simp_all
  have a: "(- q) * ps = - (q * ps)" and b: "(- q - 1) * ps = - (q * ps) - ps"
    by (simp_all add: algebra_simps)
  show "n \<le> (- ((- n) div ps)) * ps"
    using e m a unfolding q_def [symmetric] by linarith
  show "(- ((- n) div ps) - 1) * ps < n"
    using e m b unfolding q_def [symmetric] by linarith
qed

lemma totalPages_bounds:
  assumes "0 < pageSize"
  shows "int (length rows) \<le> totalPages rows pageSize * int pageSize"
    and "1 \<le> totalPages rows pageSize"
    and "rows \<noteq> [] \<Longrightarrow> (totalPages rows pageSize - 1) * int pageSize < int (length rows)"
proof -
  let ?n = "int (length rows)" and ?ps = "int pageSize"
  let ?c = "- ((- ?n) div ?ps)"
  have ps: "0 < ?ps" using assms by simp
  note b = neg_div_bounds [OF ps, of ?n]
  have tp: "totalPages rows pageSize = max 1 ?c"
    by (rule totalPages_div)
  show "1 \<le> totalPages rows pageSize"
    by (simp add: tp)
  have "?c * ?ps \<le> max 1 ?c * ?ps"
    using ps by (intro mult_right_mono) simp_all
  with b(1) show "?n \<le> totalPages rows pageSize * ?ps"
    unfolding tp by linarith
  show "(totalPages rows pageSize - 1) * ?ps < ?n" if "rows \<noteq> []"
  proof (cases "1 \<le> ?c")
    case True
    then have "max 1 ?c = ?c" by simp
    with b(2) show ?thesis unfolding tp by simp
  next
    case False
    then have "max 1 ?c = 1" by simp
    moreover from that have "0 < ?n" by simp
    ultimately show ?thesis unfolding tp by simp
  qed
qed

lemma pagedRows_in_range:
  assumes ps: "0 < pageSize" and ne: "rows \<noteq> []"
    and lo: "1 \<le> page" and hi: "page \<le> totalPages rows pageSize"
  shows "pagedRows rows page pageSize \<noteq> []"
proof -
  let ?n = "int (length rows)" and ?ps = "int pageSize"
  let ?start = "(page - 1) * ?ps"
  have p: "0 < ?ps" using ps by simp
  have s0: "0 \<le> ?start" using lo p by simp
  have "?start \<le> (totalPages rows pageSize - 1) * ?ps"
    using hi p by (intro mult_right_mono) simp_all
  with totalPages_bounds(3) [OF ps ne] have s1: "?start < ?n" by linarith
  have k: "min ?start ?n = ?start" using s1 by simp
  have f: "?start < min (?start + ?ps) ?n" using s1 p by simp
  have "0 \<le> ?start + ?ps" using s0 p by linarith
  then have "pagedRows rows page pageSize =
      take (nat (min (?start + ?ps) ?n - ?start)) (drop (nat ?start) rows)"
    using s0 k by (simp add: pagedRows_def js_slice_def Let_def)
  moreover have "drop (nat ?start) rows \<noteq> []" using s1 s0 by simp
  moreover have "0 < nat (min (?start + ?ps) ?n - ?start)" using f by simp
  ultimately show ?thesis by (cases "nat (min (?start + ?ps) ?n - ?start)") simp_all
qed

lemma pagedRows_beyond:
  assumes ps: "0 < pageSize" and hi: "totalPages rows pageSize < page"
  shows "pagedRows rows page pageSize = []"
proof -
  let ?n = "int (length rows)" and ?ps = "int pageSize"
  let ?start = "(page - 1) * ?ps"
  have p: "0 < ?ps" using ps by simp
  have "totalPages rows pageSize * ?ps \<le> ?start"
    using hi p by (intro mult_right_mono) simp_all
  with totalPages_bounds(1) [OF ps, of rows] have s1: "?n \<le> ?start" by linarith
  then have s0: "0 \<le> ?start" by linarith
  have "0 \<le> ?start + ?ps" using s0 p by linarith
  then show ?thesis
    using s0 s1 by (simp add: pagedRows_def js_slice_def Let_def min_def)
qed

lemma page_buttons:
  assumes "1 \<le> p" "p \<le> tp"
  shows "1 \<le> prevPage p \<and> prevPage p \<le> tp \<and> 1 \<le> nextPage tp p \<and> nextPage tp p \<le> tp"
  using assms by (simp add: prevPage_def nextPage_def)

lemma ex_pages:
  "totalPages [1..45] 20 = 3"
  "pagedRows [1..45] 99 20 = []"
  "pagedRows [1..45] 3 20 = [41, 42, 43, 44, 45]"
  by code_simp+

text \<open>
  With 45 rows and pages of 20 there are 3 pages; page 99 is sliced as it stands and is
  empty, it is not page 3.
\<close>

theorem page_99_is_empty:
  "totalPages [1..45] 20 = 3 \<and> pagedRows [1..45] 99 20 = [] \<and>
   pagedRows [1..45] 99 20 \<noteq> pagedRows [1..45] 3 20"
  by (simp add: ex_pages)

text \<open>
  C8, as the code has it. For a positive page size the number of pages is at least 1 and
  is the ceiling of the quotient: that many pages hold all rows, and one page fewer would
  not when there are rows. The slice of a page from 1 to the number of pages is non-empty
  when rows exist. A page beyond the number of pages is not clamped by the slicing: its
  slice is empty. The only clamp is in the buttons: from a page between 1 and the number of
  pages, Prev and Next lead to a page in the same range.
\<close>

theorem pagination_bounds:
  "0 < pageSize \<Longrightarrow>
   1 \<le> totalPages rows pageSize \<and>
   int (length rows) \<le> totalPages rows pageSize * int pageSize \<and>
   (rows \<noteq> [] \<longrightarrow> (totalPages rows pageSize - 1) * int pageSize < int (length rows)) \<and>
   (rows \<noteq> [] \<and> 1 \<le> page \<and> page \<le> totalPages rows pageSize \<longrightarrow>
      pagedRows rows page pageSize \<noteq> []) \<and>
   (totalPages rows pageSize < page \<longrightarrow> pagedRows rows page pageSize = []) \<and>
   (1 \<le> page \<and> page \<le> totalPages rows pageSize \<longrightarrow>
      1 \<le> prevPage page \<and> prevPage page \<le> totalPages rows pageSize \<and>
      1 \<le> nextPage (totalPages rows pageSize) page \<and>
      nextPage (totalPages rows pageSize) page \<le> totalPages rows pageSize)"
  using totalPages_bounds [of pageSize rows] pagedRows_in_range [of pageSize rows page]
    pagedRows_beyond [of pageSize rows page] page_buttons [of page "totalPages rows pageSize"]
  by blast

theorem pagination_bounds_witness:
  "(0::nat) < 20 \<and> [1..45] \<noteq> [] \<and> (1::int) \<le> 3 \<and> 3 \<le> totalPages [1..45] 20 \<and>
   pagedRows [1..45] 3 20 \<noteq> [] \<and>
   totalPages [1..45] 20 < 99 \<and> pagedRows [1..45] 99 20 = [] \<and>
   nextPage (totalPages [1..45] 20) 3 = 3 \<and> prevPage 3 = 2"
  using pagination_bounds [of 20 "[1..45]" 3] pagination_bounds [of 20 "[1..45]" 99]
  by (simp add: ex_pages prevPage_def nextPage_def)


section \<open>Yearly trends\<close>

lemma yearly_step_created:
  "created_of (yearly_step pd gy m t) y =
     created_of m y + (if year_of pd gy (v_createdTime t) = Some y then 1 else 0)"
  by (auto simp: yearly_step_def created_of_def entry_or_new_def Let_def split: option.splits)

lemma yearly_step_resolved:
  "resolved_of (yearly_step pd gy m t) y =
     resolved_of m y +
     (if toLowerCase (v_status t) \<in> set RESOLVED_STATUSES \<and>
         year_of pd gy (v_closedTime t) = Some y then 1 else 0)"
  by (auto simp: yearly_step_def resolved_of_def entry_or_new_def Let_def split: option.splits)

lemma foldl_yearly_created:
  "created_of (foldl (yearly_step pd gy) m rows) y =
     created_of m y + length (filter (\<lambda>t. year_of pd gy (v_createdTime t) = Some y) rows)"
  by (induction rows arbitrary: m) (simp_all add: yearly_step_created)

lemma foldl_yearly_resolved:
  "resolved_of (foldl (yearly_step pd gy) m rows) y =
     resolved_of m y +
     length (filter (\<lambda>t. toLowerCase (v_status t) \<in> set RESOLVED_STATUSES \<and>
                          year_of pd gy (v_closedTime t) = Some y) rows)"
  by (induction rows arbitrary: m) (simp_all add: yearly_step_resolved)

lemma summary_step_dom: "summary_step pd gy m t y = None \<longleftrightarrow> m y = None"
  by (auto simp: summary_step_def Let_def split: option.splits)

lemma summary_step_created:
  "created_of (summary_step pd gy m t) y =
     created_of m y + (if m y = None then 0 else if year_of pd gy (createdTime t) = Some y then 1 else 0)"
  by (auto simp: summary_step_def created_of_def Let_def split: option.splits)

lemma summary_step_resolved:
  "resolved_of (summary_step pd gy m t) y =
     resolved_of m y +
     (if m y = None then 0
      else if year_of pd gy (createdTime t) = Some y \<and>
              toLowerCase (status t) \<in> set RESOLVED_STATUSES then 1 else 0)"
  by (auto simp: summary_step_def resolved_of_def Let_def split: option.splits)

lemma foldl_summary_created:
  "created_of (foldl (summary_step pd gy) m ts) y =
     created_of m y +
     (if m y = None then 0 else length (filter (\<lambda>t. year_of pd gy (createdTime t) = Some y) ts))"
  by (induction ts arbitrary: m) (simp_all add: summary_step_created summary_step_dom)

lemma foldl_summary_resolved:
  "resolved_of (foldl (summary_step pd gy) m ts) y =
     resolved_of m y +
     (if m y = None then 0
      else length (filter (\<lambda>t. year_of pd gy (createdTime t) = Some y \<and>
                                toLowerCase (status t) \<in> set RESOLVED_STATUSES) ts))"
  by (induction ts arbitrary: m) (simp_all add: summary_step_resolved summary_step_dom)

lemma ex_year_of:
  "year_of ex_parseDate ex_getFullYear ''2023-06-10T00:00:00Z'' = Some 2023"
  "year_of ex_parseDate ex_getFullYear ''2024-01-15T00:00:00Z'' = Some 2024"
  by (simp_all add: year_of_def ex_parseDate_def ex_getFullYear_def)

lemma ex_closed_is_resolved:
  "toLowerCase ''closed'' \<in> set RESOLVED_STATUSES"
  "toLowerCase ''Closed'' \<in> set RESOLVED_STATUSES"
  by (simp_all add: toLowerCase_def lower_char_def RESOLVED_STATUSES_def)

text \<open>
  The backend summary counts a closed ticket that was created in 2023 and closed in 2024
  as resolved in 2023 and not in 2024.
\<close>

theorem yearlySummary_resolves_in_creation_year:
  "created_of (yearlySummary ex_parseDate ex_getFullYear [ex_cross_year]) 2023 = 1 \<and>
   resolved_of (yearlySummary ex_parseDate ex_getFullYear [ex_cross_year]) 2023 = 1 \<and>
   resolved_of (yearlySummary ex_parseDate ex_getFullYear [ex_cross_year]) 2024 = 0"
  by (simp add: yearlySummary_def summary_step_def summary0_def created_of_def resolved_of_def
      ex_cross_year_def ex_year_of ex_closed_is_resolved)

text \<open>
  C3, as the code has it. In the charts' \<open>yearlyData\<close> every row whose \<open>createdTime\<close> parses
  adds one to \<open>created\<close> of its creation year and, independently, every row with a
  resolved-like status whose \<open>closedTime\<close> parses adds one to \<open>resolved\<close> of its closure
  year, and nothing else is counted. The backend's \<open>/api/tickets-yearly-summary\<close> counts
  only the years 2020 to 2025, and a ticket whose \<open>createdTime\<close> parses to such a year adds
  one to \<open>created\<close> and, when its status is resolved-like, one to \<open>resolved\<close> of the creation
  year.
\<close>

theorem yearly_counts:
  "created_of (yearlyData pd gy rows) y =
     length (filter (\<lambda>t. year_of pd gy (v_createdTime t) = Some y) rows) \<and>
   resolved_of (yearlyData pd gy rows) y =
     length (filter (\<lambda>t. toLowerCase (v_status t) \<in> set RESOLVED_STATUSES \<and>
                          year_of pd gy (v_closedTime t) = Some y) rows) \<and>
   created_of (yearlySummary pd gy ts) y =
     (if 2020 \<le> y \<and> y \<le> 2025
      then length (filter (\<lambda>t. year_of pd gy (createdTime t) = Some y) ts) else 0) \<and>
   resolved_of (yearlySummary pd gy ts) y =
     (if 2020 \<le> y \<and> y \<le> 2025
      then length (filter (\<lambda>t. year_of pd gy (createdTime t) = Some y \<and>
                               toLowerCase (status t) \<in> set RESOLVED_STATUSES) ts)
      else 0)"
  by (simp add: yearlyData_def yearlySummary_def foldl_yearly_created foldl_yearly_resolved
      foldl_summary_created foldl_summary_resolved,
      auto simp: created_of_def resolved_of_def summary0_def)

theorem yearly_counts_witness:
  "created_of (yearlyData ex_parseDate ex_getFullYear [ex_row123, ex_row1234]) 2023 = 1 \<and>
   resolved_of (yearlyData ex_parseDate ex_getFullYear [ex_row123, ex_row1234]) 2024 = 1 \<and>
   resolved_of (yearlyData ex_parseDate ex_getFullYear [ex_row123, ex_row1234]) 2023 = 0 \<and>
   created_of (yearlyData ex_parseDate ex_getFullYear [ex_row123, ex_row1234]) 2024 = 1"
  using yearly_counts [of ex_parseDate ex_getFullYear "[ex_row123, ex_row1234]" 2023 "[]"]
    yearly_counts [of ex_parseDate ex_getFullYear "[ex_row123, ex_row1234]" 2024 "[]"]
  by (simp add: ex_row123_def ex_row1234_def ex_year_of ex_closed_is_resolved,
      simp add: year_of_def ex_parseDate_def ex_getFullYear_def)


section \<open>Durations\<close>

lemma is_digit_not_colon: "is_digit c \<Longrightarrow> c \<noteq> CHR '':''"
  by (auto simp: is_digit_def)

lemma digit_char_props: "k < 10 \<Longrightarrow> is_digit (digit_char k) \<and> digit_val (digit_char k) = k"
proof -
  assume "k < 10"
  then have "k \<in> {0, 1, 2, 3, 4, 5, 6, 7, 8, 9}" by auto
  then show ?thesis
    by (auto simp: digit_char_def is_digit_def digit_val_def)
qed

lemma digits_val_snoc: "digits_val (ds @ [c]) = 10 * digits_val ds + digit_val c"
  by (simp add: digits_val_def)

lemma show_nat_props:
  "show_nat n \<noteq> [] \<and> list_all is_digit (show_nat n) \<and> digits_val (show_nat n) = n"
proof (induction n rule: show_nat.induct)
  case (1 n)
  show ?case
  proof (cases "n < 10")
    case True
    then show ?thesis
      using digit_char_props [of n] by (simp add: show_nat.simps [of n] digits_val_def)
  next
    case False
    with 1 have ih: "list_all is_digit (show_nat (n div 10))" "digits_val (show_nat (n div 10)) = n div 10"
      by simp_all
    have "n mod 10 < 10" by simp
    from digit_char_props [OF this] ih False show ?thesis
      by (simp add: show_nat.simps [of n] digits_val_snoc)
  qed
qed

lemma digits_val_zeros: "digits_val (replicate k (CHR ''0'') @ ds) = digits_val ds"
  by (induction k) (simp_all add: digits_val_def digit_val_def)

lemma padStart2_props:
  assumes "ds \<noteq> []" "list_all is_digit ds"
  shows "padStart2 ds \<noteq> [] \<and> list_all is_digit (padStart2 ds) \<and>
    digits_val (padStart2 ds) = digits_val ds"
proof -
  have "is_digit (CHR ''0'')" by (simp add: is_digit_def)
  then have "list_all is_digit (replicate k (CHR ''0''))" for k
    by (induction k) simp_all
  with assms show ?thesis
    by (simp add: padStart2_def digits_val_zeros)
qed

lemma split_colon_last: "CHR '':'' \<notin> set b \<Longrightarrow> split_colon cur b = [cur @ b]"
  by (induction b arbitrary: cur) auto

lemma split_colon_two:
  "CHR '':'' \<notin> set a \<Longrightarrow> CHR '':'' \<notin> set b \<Longrightarrow>
   split_colon cur (a @ CHR '':'' # b) = [cur @ a, b]"
  by (induction a arbitrary: cur) (auto simp: split_colon_last)

lemma digits_no_colon: "list_all is_digit ds \<Longrightarrow> CHR '':'' \<notin> set ds"
  by (auto simp: list_all_iff dest: is_digit_not_colon)

lemma toMinutes_digits:
  assumes N: "\<And>ds. ds \<noteq> [] \<Longrightarrow> list_all is_digit ds \<Longrightarrow> Number ds = Num (of_nat (digits_val ds))"
    and a: "a \<noteq> []" "list_all is_digit a" and b: "b \<noteq> []" "list_all is_digit b"
  shows "toMinutes Number (a @ '':'' @ b) = of_nat (digits_val a) * 60 + of_nat (digits_val b)"
proof -
  have "split_colon [] (a @ CHR '':'' # b) = [a, b]"
    using split_colon_two [of a b "[]"] digits_no_colon a(2) b(2) by simp
  then show ?thesis
    using N [OF a] N [OF b] a(1) by (simp add: toMinutes_def)
qed

lemma format_parts:
  assumes "m < 60" "0 < h * 60 + m"
  shows "formatHoursToText (of_nat (h * 60 + m) / 60) = show_nat h @ '':'' @ padStart2 (show_nat m)"
proof -
  let ?hrs = "of_nat (h * 60 + m) / 60 :: rat"
  have "0 < (of_nat (h * 60 + m) :: rat)"
    using assms(2) by (simp only: of_nat_0_less_iff)
  then have pos: "\<not> ?hrs \<le> 0"
    by (simp add: not_le)
  have "\<lfloor>?hrs\<rfloor> = int ((h * 60 + m) div 60)"
    using floor_divide_of_nat_eq [of "h * 60 + m" 60, where ?'a = rat] by simp
  also have "(h * 60 + m) div 60 = h" using assms(1) by simp
  finally have fl: "\<lfloor>?hrs\<rfloor> = int h" .
  have "(?hrs - of_int \<lfloor>?hrs\<rfloor>) * 60 = of_nat m"
    unfolding fl by (simp add: field_simps)
  then have "\<lfloor>(?hrs - of_int \<lfloor>?hrs\<rfloor>) * 60 + 1 / 2\<rfloor> = \<lfloor>(of_nat m :: rat) + 1 / 2\<rfloor>"
    by simp
  also have "\<dots> = int m"
    by (simp add: floor_unique)
  finally have mm: "nat \<lfloor>(?hrs - of_int \<lfloor>?hrs\<rfloor>) * 60 + 1 / 2\<rfloor> = m" by simp
  show ?thesis
    using pos fl mm by (simp add: formatHoursToText_def Let_def)
qed

text \<open>
  C9. For all integers \<open>h\<close> in [0, 23] and \<open>m\<close> in [0, 59], formatting \<open>h * 60 + m\<close>
  minutes (as the hours \<open>(h * 60 + m) / 60\<close>) with \<open>formatHoursToText\<close> and reading the text
  back with \<open>toMinutes\<close> yields exactly \<open>h * 60 + m\<close>, for every \<open>Number\<close> that converts a
  string of decimal digits to its value.
\<close>

theorem format_parse_round_trip:
  assumes N: "\<And>ds. ds \<noteq> [] \<Longrightarrow> list_all is_digit ds \<Longrightarrow> Number ds = Num (of_nat (digits_val ds))"
    and m: "m < 60" and h: "h \<le> 23"
  shows "toMinutes Number (formatHoursToText (of_nat (h * 60 + m) / 60)) = of_nat (h * 60 + m)"
proof (cases "h * 60 + m = 0")
  case True
  have "toMinutes Number (''0'' @ '':'' @ ''00'') = of_nat (digits_val ''0'') * 60 + of_nat (digits_val ''00'')"
    by (rule toMinutes_digits [OF N]) (simp_all add: is_digit_def)
  with True show ?thesis
    by (simp add: formatHoursToText_def digits_val_def digit_val_def)
next
  case False
  then have f: "formatHoursToText (of_nat (h * 60 + m) / 60) = show_nat h @ '':'' @ padStart2 (show_nat m)"
    using format_parts [OF m] by simp
  have pm: "padStart2 (show_nat m) \<noteq> []" "list_all is_digit (padStart2 (show_nat m))"
    "digits_val (padStart2 (show_nat m)) = m"
    using show_nat_props [of m] padStart2_props [of "show_nat m"] by simp_all
  have "toMinutes Number (show_nat h @ '':'' @ padStart2 (show_nat m)) =
      of_nat (digits_val (show_nat h)) * 60 + of_nat (digits_val (padStart2 (show_nat m)))"
    using show_nat_props [of h] pm by (intro toMinutes_digits [OF N]) simp_all
  with f pm(3) show_nat_props [of h] show ?thesis by simp
qed

lemma ex_formatHoursToText:
  "formatHoursToText (307 / 60) = ''5:07''"
  "formatHoursToText (1439 / 60) = ''23:59''"
  by code_simp+

theorem format_parse_round_trip_witness:
  "(7::nat) < 60 \<and> (5::nat) \<le> 23 \<and>
   formatHoursToText (307 / 60) = ''5:07'' \<and>
   toMinutes ex_Number ''5:07'' = 307 \<and>
   formatHoursToText (1439 / 60) = ''23:59'' \<and>
   toMinutes ex_Number ''23:59'' = 1439"
proof -
  have N: "\<And>ds. ds \<noteq> [] \<Longrightarrow> list_all is_digit ds \<Longrightarrow> ex_Number ds = Num (of_nat (digits_val ds))"
    by (simp add: ex_Number_def)
  from format_parse_round_trip [of ex_Number 7 5, OF N]
    format_parse_round_trip [of ex_Number 59 23, OF N]
  show ?thesis
    by (simp add: ex_formatHoursToText)
qed

text \<open>
  \<open>parseZohoDurationToHours\<close> is no inverse of the formatter: it wants the suffix \<open>hrs\<close>
  after \<open>H:MM\<close> and reads \<open>5:07\<close> as 5 hours.
\<close>

lemma parse_of_formatted:
  "parseZohoDurationToHours ''5:07'' = 5"
  by (simp add: parseZohoDurationToHours_def trim_def is_space_def toLowerCase_def lower_char_def
      match_dhm_def match_hm_def match_num_def is_digit_def digits_val_def digit_val_def)

lemma ex_parseZohoDurationToHours:
  "parseZohoDurationToHours ''20 days 04:40 hrs'' = 20 * 24 + 4 + 40 / 60"
  "parseZohoDurationToHours ''04:00 hrs'' = 4"
  "parseZohoDurationToHours ''5 Hrs'' = 5"
  "parseZohoDurationToHours ''n/a'' = 0"
  "parseZohoDurationToHours [] = 0"
  by (simp_all add: parseZohoDurationToHours_def trim_def is_space_def toLowerCase_def
      lower_char_def match_dhm_def match_hm_def match_num_def is_digit_def digits_val_def
      digit_val_def)


section \<open>Agent performance\<close>

lemma set_set_add: "set (set_add x s) = insert x (set s)"
  by (auto simp: set_add_def)

lemma distinct_set_add: "distinct s \<Longrightarrow> distinct (set_add x s)"
  by (simp add: set_add_def)

lemma length_set_add: "length (set_add x s) = (if x \<in> set s then length s else Suc (length s))"
  by (simp add: set_add_def)

lemma covered_new: "bucket_covered (new_bucket k)" "bucket_exact (new_bucket k)"
  "bucket_classified sm (new_bucket k)"
  by (simp_all add: bucket_covered_def bucket_exact_def bucket_classified_def new_bucket_def)

lemma covered_add_ticket: "bucket_covered b \<Longrightarrow> bucket_covered (add_ticket res i b)"
  by (auto simp: bucket_covered_def add_ticket_def Let_def set_set_add distinct_set_add)

lemma ticketIds_add_ticket: "set (ticketIds (add_ticket res i b)) = insert i (set (ticketIds b))"
  by (simp add: add_ticket_def Let_def set_set_add)

lemma exact_add_ticket_new:
  "bucket_covered b \<Longrightarrow> bucket_exact b \<Longrightarrow> i \<notin> set (ticketIds b) \<Longrightarrow>
   bucket_exact (add_ticket res i b)"
  by (auto simp: bucket_covered_def bucket_exact_def add_ticket_def Let_def length_set_add)

lemma classified_add_ticket:
  "bucket_classified sm b \<Longrightarrow> bucket_classified sm (add_ticket (recorded_resolved sm i) i b)"
  by (auto simp: bucket_classified_def add_ticket_def Let_def set_add_def)

lemma covered_length_le:
  assumes "bucket_covered b"
  shows "length (ticketIds b) \<le> length (resolvedIds b) + length (pendingIds b)"
proof -
  from assms have "length (ticketIds b) = card (set (resolvedIds b) \<union> set (pendingIds b))"
    by (metis bucket_covered_def distinct_card)
  also have "\<dots> \<le> card (set (resolvedIds b)) + card (set (pendingIds b))"
    by (rule card_Un_le)
  also have "\<dots> \<le> length (resolvedIds b) + length (pendingIds b)"
    by (intro add_mono card_length)
  finally show ?thesis .
qed

lemma classified_exact:
  assumes "bucket_covered b" "bucket_classified sm b"
  shows "bucket_exact b"
proof -
  from assms(2) have "set (resolvedIds b) \<inter> set (pendingIds b) = {}"
    by (auto simp: bucket_classified_def list_all_iff)
  then have "card (set (resolvedIds b) \<union> set (pendingIds b)) =
      card (set (resolvedIds b)) + card (set (pendingIds b))"
    by (intro card_Un_disjoint) simp_all
  with assms(1) show ?thesis
    by (simp add: bucket_covered_def bucket_exact_def distinct_card [symmetric])
qed

lemma add_durations_ids:
  "ticketIds (add_durations row b) = ticketIds b"
  "resolvedIds (add_durations row b) = resolvedIds b"
  "pendingIds (add_durations row b) = pendingIds b"
  by (simp_all add: add_durations_def Let_def)

text \<open>Properties of all buckets of a map.\<close>

lemma all_put: "list_all (\<lambda>(k, b). P b) am \<Longrightarrow> P b' \<Longrightarrow> list_all (\<lambda>(k, b). P b) (put am k' b')"
  by (induction am) auto

lemma all_ensure:
  "list_all (\<lambda>(k, b). P b) am \<Longrightarrow> P (new_bucket k') \<Longrightarrow> list_all (\<lambda>(k, b). P b) (ensure am k')"
  by (simp add: ensure_def)

lemma all_map_of: "list_all (\<lambda>(k, b). P b) am \<Longrightarrow> map_of am k' = Some b' \<Longrightarrow> P b'"
  by (auto simp: list_all_iff dest: map_of_SomeD)


lemma add_durations_inv:
  "bucket_covered (add_durations row b) = bucket_covered b"
  "bucket_classified sm (add_durations row b) = bucket_classified sm b"
  "bucket_exact (add_durations row b) = bucket_exact b"
  by (simp_all add: bucket_covered_def bucket_classified_def bucket_exact_def add_durations_ids)

lemma totals_inv:
  "bucket_covered (b\<lparr> totalResolutionHours := x, resolutionCount := n \<rparr>) = bucket_covered b"
  "bucket_exact (b\<lparr> totalResolutionHours := x, resolutionCount := n \<rparr>) = bucket_exact b"
  "ticketIds (b\<lparr> totalResolutionHours := x, resolutionCount := n \<rparr>) = ticketIds b"
  by (simp_all add: bucket_covered_def bucket_exact_def)

subsection \<open>The routes module: the sizes add up\<close>

lemma route_step_inv:
  assumes "route_step sm am row = Some am'"
    and "list_all (\<lambda>(k, b). bucket_covered b \<and> bucket_classified sm b) am"
  shows "list_all (\<lambda>(k, b). bucket_covered b \<and> bucket_classified sm b) am'"
proof (cases "or_else (m_ticketNumber row) (m_id row) = []")
  case True
  with assms show ?thesis by (simp add: route_step_def Let_def)
next
  case False
  let ?name = "or_else (m_agentName row) ''Unassigned''"
  let ?i = "or_else (m_ticketNumber row) (m_id row)"
  let ?am = "ensure am ?name"
  have e: "list_all (\<lambda>(k, b). bucket_covered b \<and> bucket_classified sm b) ?am"
    using assms(2) by (rule all_ensure) (simp add: covered_new)
  from assms(1) False obtain b where b: "map_of ?am ?name = Some b"
    and am': "am' = put ?am ?name
       (add_durations row (add_ticket (closed_or_resolved (js_or (obj_get sm ?i) (Str []))) ?i b))"
    by (auto simp: route_step_def Let_def split: option.splits)
  from all_map_of [OF e b] have "bucket_covered b" "bucket_classified sm b" by simp_all
  then have "bucket_covered (add_ticket (recorded_resolved sm ?i) ?i b) \<and>
      bucket_classified sm (add_ticket (recorded_resolved sm ?i) ?i b)"
    by (simp add: covered_add_ticket classified_add_ticket)
  then show ?thesis
    unfolding am' recorded_resolved_def
    by (intro all_put [OF e]) (simp add: add_durations_inv)
qed

lemma route_loop_inv:
  "route_loop sm am rs = Some am' \<Longrightarrow>
   list_all (\<lambda>(k, b). bucket_covered b \<and> bucket_classified sm b) am \<Longrightarrow>
   list_all (\<lambda>(k, b). bucket_covered b \<and> bucket_classified sm b) am'"
proof (induction rs arbitrary: am)
  case Nil
  then show ?case by simp
next
  case (Cons r rs)
  from Cons.prems(1) obtain am1 where s: "route_step sm am r = Some am1"
    and l: "route_loop sm am1 rs = Some am'"
    by (auto split: option.splits)
  from Cons.IH [OF l route_step_inv [OF s Cons.prems(2)]] show ?case .
qed

lemma route_rows_exact:
  assumes "agentPerformanceRoute allTickets metricRows = Some rows" and "r \<in> set rows"
  shows "ra_ticketsCreated r = ra_ticketsResolved r + ra_pendingTickets r"
proof (cases "allTickets = []")
  case True
  with assms show ?thesis by (simp add: agentPerformanceRoute_def)
next
  case False
  with assms(1) obtain am where l: "route_loop (ticketStatusMap allTickets) [] metricRows = Some am"
    and rows: "rows = map (\<lambda>(k, a). route_finalize a) am"
    by (auto simp: agentPerformanceRoute_def split: option.splits)
  from route_loop_inv [OF l] have
    inv: "list_all (\<lambda>(k, b). bucket_covered b \<and> bucket_classified (ticketStatusMap allTickets) b) am"
    by simp
  from assms(2) rows obtain k a where ka: "(k, a) \<in> set am" and r: "r = route_finalize a"
    by auto
  from inv ka have "bucket_covered a" "bucket_classified (ticketStatusMap allTickets) a"
    by (auto simp: list_all_iff)
  from classified_exact [OF this] show ?thesis
    by (simp add: r route_finalize_def bucket_exact_def)
qed

subsection \<open>The server: the sizes add up for distinct tickets\<close>

lemma overlay_step_inv:
  assumes P: "\<And>b x n. P (b\<lparr> totalResolutionHours := x, resolutionCount := n \<rparr>) = P b"
    and new: "\<And>k. P (new_bucket k)"
    and am: "list_all (\<lambda>(k, b). P b) am"
  shows "list_all (\<lambda>(k, b). P b) (overlay_step sm am row)"
proof -
  let ?k = "or_else (m_agentId row) (or_else (m_assigneeId row) ''unassigned'')"
  have e: "list_all (\<lambda>(k, b). P b) (ensure am ?k)"
    using am new by (rule all_ensure)
  have "list_all (\<lambda>(k, b). P b)
      (put (ensure am ?k) ?k (b\<lparr> totalResolutionHours := x, resolutionCount := n \<rparr>))"
    if "map_of (ensure am ?k) ?k = Some b" for b x n
    using all_map_of [OF e that] by (intro all_put [OF e]) (simp add: P)
  with e am show ?thesis
    by (simp add: overlay_step_def Let_def split: option.splits)
qed

lemma overlay_loop_inv:
  assumes P: "\<And>b x n. P (b\<lparr> totalResolutionHours := x, resolutionCount := n \<rparr>) = P b"
    and new: "\<And>k. P (new_bucket k)"
  shows "list_all (\<lambda>(k, b). P b) am \<Longrightarrow>
    list_all (\<lambda>(k, b). P b) (foldl (overlay_step sm) am rows)"
  by (induction rows arbitrary: am) (simp_all add: overlay_step_inv [OF P new])

lemma base_step_covered:
  assumes "base_step sm am t = Some (sm', am')"
    and "list_all (\<lambda>(k, b). bucket_covered b) am"
  shows "list_all (\<lambda>(k, b). bucket_covered b) am'"
proof -
  let ?k = "case assigneeId t of None \<Rightarrow> ''unassigned'' | Some a \<Rightarrow> or_else a ''unassigned''"
  have e: "list_all (\<lambda>(k, b). bucket_covered b) (ensure am ?k)"
    using assms(2) by (rule all_ensure) (rule covered_new)
  show ?thesis
  proof (cases "ticket_key t = []")
    case True
    with assms(1) e show ?thesis by (auto simp: base_step_def Let_def)
  next
    case False
    with assms(1) obtain b res where b: "map_of (ensure am ?k) ?k = Some b"
      and am': "am' = put (ensure am ?k) ?k (add_ticket res (ticket_key t) b)"
      by (auto simp: base_step_def Let_def split: option.splits)
    from all_map_of [OF e b] show ?thesis
      unfolding am' by (intro all_put [OF e] covered_add_ticket)
  qed
qed

lemma base_loop_covered:
  "base_loop sm am ts = Some (sm', am') \<Longrightarrow> list_all (\<lambda>(k, b). bucket_covered b) am \<Longrightarrow>
   list_all (\<lambda>(k, b). bucket_covered b) am'"
proof (induction ts arbitrary: sm am)
  case Nil
  then show ?case by simp
next
  case (Cons t ts)
  from Cons.prems(1) obtain sm1 am1 where s: "base_step sm am t = Some (sm1, am1)"
    and l: "base_loop sm1 am1 ts = Some (sm', am')"
    by (auto split: option.splits)
  from Cons.IH [OF l base_step_covered [OF s Cons.prems(2)]] show ?case .
qed

lemma within_new: "bucket_within S (new_bucket k)"
  by (simp add: bucket_within_def bucket_covered_def bucket_exact_def new_bucket_def)

lemma within_mono: "bucket_within S b \<Longrightarrow> S \<subseteq> S' \<Longrightarrow> bucket_within S' b"
  by (auto simp: bucket_within_def)

lemma all_within_mono:
  "list_all (\<lambda>(k, b). bucket_within S b) am \<Longrightarrow> S \<subseteq> S' \<Longrightarrow>
   list_all (\<lambda>(k, b). bucket_within S' b) am"
  by (auto simp: list_all_iff dest: within_mono)

lemma within_add_ticket:
  "bucket_within S b \<Longrightarrow> i \<notin> S \<Longrightarrow> bucket_within (insert i S) (add_ticket res i b)"
  unfolding bucket_within_def
  by (auto simp: covered_add_ticket ticketIds_add_ticket intro: exact_add_ticket_new)

lemma base_step_within:
  assumes "base_step sm am t = Some (sm', am')"
    and "list_all (\<lambda>(k, b). bucket_within S b) am"
    and "ticket_key t \<notin> S"
  shows "list_all (\<lambda>(k, b). bucket_within (insert (ticket_key t) S) b) am'"
proof -
  let ?k = "case assigneeId t of None \<Rightarrow> ''unassigned'' | Some a \<Rightarrow> or_else a ''unassigned''"
  have "list_all (\<lambda>(k, b). bucket_within S b) (ensure am ?k)"
    using assms(2) by (rule all_ensure) (rule within_new)
  then have e: "list_all (\<lambda>(k, b). bucket_within (insert (ticket_key t) S) b) (ensure am ?k)"
    by (rule all_within_mono) auto
  show ?thesis
  proof (cases "ticket_key t = []")
    case True
    with assms(1) e show ?thesis by (auto simp: base_step_def Let_def)
  next
    case False
    with assms(1) obtain b res where b: "map_of (ensure am ?k) ?k = Some b"
      and am': "am' = put (ensure am ?k) ?k (add_ticket res (ticket_key t) b)"
      by (auto simp: base_step_def Let_def split: option.splits)
    have "bucket_within S b"
      using all_map_of [OF \<open>list_all (\<lambda>(k, b). bucket_within S b) (ensure am ?k)\<close> b] .
    from within_add_ticket [OF this assms(3)] show ?thesis
      unfolding am' by (intro all_put [OF e])
  qed
qed

lemma base_loop_within:
  "base_loop sm am ts = Some (sm', am') \<Longrightarrow>
   list_all (\<lambda>(k, b). bucket_within S b) am \<Longrightarrow>
   distinct (map ticket_key ts) \<Longrightarrow> set (map ticket_key ts) \<inter> S = {} \<Longrightarrow>
   list_all (\<lambda>(k, b). bucket_within (S \<union> set (map ticket_key ts)) b) am'"
proof (induction ts arbitrary: sm am S)
  case Nil
  then show ?case by simp
next
  case (Cons t ts)
  from Cons.prems(1) obtain sm1 am1 where s: "base_step sm am t = Some (sm1, am1)"
    and l: "base_loop sm1 am1 ts = Some (sm', am')"
    by (auto split: option.splits)
  from Cons.prems(4) have n: "ticket_key t \<notin> S" by auto
  have "list_all (\<lambda>(k, b). bucket_within (insert (ticket_key t) S \<union> set (map ticket_key ts)) b) am'"
  proof (rule Cons.IH [OF l base_step_within [OF s Cons.prems(2) n]])
    show "distinct (map ticket_key ts)" using Cons.prems(3) by simp
    show "set (map ticket_key ts) \<inter> insert (ticket_key t) S = {}"
      using Cons.prems(3,4) by auto
  qed
  then show ?case by simp
qed

lemma server_rows:
  assumes "agentPerformance allTickets metricRows = Some rows" and "r \<in> set rows"
  shows "ticketsCreated r \<le> ticketsResolved r + pendingCount r"
    and "distinct (map ticket_key allTickets) \<Longrightarrow>
       ticketsCreated r = ticketsResolved r + pendingCount r"
proof -
  have "ticketsCreated r \<le> ticketsResolved r + pendingCount r \<and>
    (distinct (map ticket_key allTickets) \<longrightarrow>
       ticketsCreated r = ticketsResolved r + pendingCount r)"
  proof (cases "allTickets = []")
    case True
    with assms show ?thesis by (simp add: agentPerformance_def)
  next
    case False
    with assms(1) obtain sm am where l: "base_loop Map.empty [] allTickets = Some (sm, am)"
      and rows: "rows = map (\<lambda>(k, a). finalize a) (foldl (overlay_step sm) am metricRows)"
      by (auto simp: agentPerformance_def split: option.splits)
    from assms(2) rows obtain k a where ka: "(k, a) \<in> set (foldl (overlay_step sm) am metricRows)"
      and r: "r = finalize a"
      by auto
    have "list_all (\<lambda>(k, b). bucket_covered b) am"
      using base_loop_covered [OF l] by simp
    then have "list_all (\<lambda>(k, b). bucket_covered b) (foldl (overlay_step sm) am metricRows)"
      by (intro overlay_loop_inv) (simp_all add: totals_inv covered_new)
    with ka have "bucket_covered a" by (auto simp: list_all_iff)
    from covered_length_le [OF this] have le: "ticketsCreated r \<le> ticketsResolved r + pendingCount r"
      by (simp add: r finalize_def Let_def)
    have "ticketsCreated r = ticketsResolved r + pendingCount r"
      if d: "distinct (map ticket_key allTickets)"
    proof -
      have "list_all (\<lambda>(k, b). bucket_within ({} \<union> set (map ticket_key allTickets)) b) am"
        using base_loop_within [OF l _ d, of "{}"] by simp
      then have "list_all (\<lambda>(k, b). bucket_exact b) am"
        by (auto simp: list_all_iff bucket_within_def)
      then have "list_all (\<lambda>(k, b). bucket_exact b) (foldl (overlay_step sm) am metricRows)"
        by (intro overlay_loop_inv) (simp_all add: totals_inv covered_new)
      with ka have "bucket_exact a" by (auto simp: list_all_iff)
      then show ?thesis by (simp add: r finalize_def Let_def bucket_exact_def)
    qed
    with le show ?thesis by simp
  qed
  then show "ticketsCreated r \<le> ticketsResolved r + pendingCount r"
    and "distinct (map ticket_key allTickets) \<Longrightarrow>
       ticketsCreated r = ticketsResolved r + pendingCount r"
    by simp_all
qed

subsection \<open>The two routes on examples\<close>

lemma ex_durations:
  "parseZohoDurationToHours ''04:00 hrs'' = 4"
  "parseZohoDurationToHours ''01:00 hrs'' = 1"
  "parseZohoDurationToHours [] = 0"
  by (simp_all add: parseZohoDurationToHours_def trim_def is_space_def toLowerCase_def
      lower_char_def match_dhm_def match_hm_def match_num_def is_digit_def digits_val_def
      digit_val_def)

lemma ex_statuses: "toLowerCase ''Closed'' = ''closed''" "toLowerCase ''Open'' = ''open''"
  by (simp_all add: toLowerCase_def lower_char_def)

lemma ex_agentPerformance:
  "agentPerformance [ex_t101, ex_t102] [ex_m101, ex_m102] =
     Some [\<lparr> agentId = ''7001'', ticketsCreated = 2, ticketsResolved = 2, pendingCount = 0,
              avgResolutionHours = 0, avgResolutionText = ''0:00'' \<rparr>,
           \<lparr> agentId = ''unassigned'', ticketsCreated = 0, ticketsResolved = 0, pendingCount = 0,
              avgResolutionHours = 2, avgResolutionText = ''2:00'' \<rparr>]"
  by (simp add: agentPerformance_def base_step_def overlay_step_def ticket_key_def or_else_def
      obj_set_def obj_get_def js_or_def ensure_def object_prototype_names_def new_bucket_def
      add_ticket_def set_add_def RESOLVED_STATUSES_def finalize_def Let_def ex_durations
      ex_statuses ex_t101_def ex_t102_def ex_m101_def ex_m102_def formatHoursToText_def
      padStart2_def show_nat.simps [of 0] show_nat.simps [of 2] digit_char_def)

lemma ex_agentPerformanceRoute:
  "agentPerformanceRoute [ex_t101, ex_t102] [ex_m101, ex_m102] =
     Some [\<lparr> ra_agentName = ''Asha Rao'', ra_ticketsCreated = 2, ra_ticketsResolved = 2,
              ra_pendingTickets = 0, ra_avgResolutionHours = 4, ra_avgFirstResponseHours = 1 \<rparr>]"
  by (simp add: agentPerformanceRoute_def route_step_def ticketStatusMap_def ticket_key_def
      or_else_def obj_set_def obj_get_def js_or_def ensure_def object_prototype_names_def
      new_bucket_def add_ticket_def set_add_def closed_or_resolved_def route_finalize_def
      add_durations_def Let_def ex_durations ex_statuses ex_t101_def ex_t102_def ex_m101_def
      ex_m102_def)

lemma ex_ticket_keys: "distinct (map ticket_key [ex_t101, ex_t102])"
  by (simp add: ticket_key_def or_else_def ex_t101_def ex_t102_def)

text \<open>
  When the ticket 101 is in the input twice, open in the active list and closed in the
  archive, the server's route puts its number into the pending and into the resolved set of
  the agent: one ticket created, one resolved, one pending.
\<close>

theorem duplicate_ticket_is_resolved_and_pending:
  "agentPerformance [ex_t101_open, ex_t101] [] =
     Some [\<lparr> agentId = ''7001'', ticketsCreated = 1, ticketsResolved = 1, pendingCount = 1,
              avgResolutionHours = 0, avgResolutionText = ''0:00'' \<rparr>]"
  by (simp add: agentPerformance_def base_step_def ticket_key_def or_else_def
      obj_set_def obj_get_def js_or_def ensure_def object_prototype_names_def new_bucket_def
      add_ticket_def set_add_def RESOLVED_STATUSES_def finalize_def Let_def
      ex_statuses ex_t101_def ex_t101_open_def formatHoursToText_def)

text \<open>
  C10, as the code has it. In the routes module, where the status of every ticket id is
  fixed before the rows are aggregated, every agent row satisfies
  \<open>ticketsCreated = ticketsResolved + pendingTickets\<close>. In the server's route, where a ticket
  is classified by its own status while the tickets are read, every ticket id of an agent
  is in the resolved or in the pending set, so \<open>ticketsCreated \<le> ticketsResolved +
  pendingCount\<close> in every agent row, with equality when no ticket number occurs twice in the
  input.
\<close>

theorem agent_rows_created_resolved_pending:
  "(agentPerformanceRoute allTickets metricRows = Some routeRows \<longrightarrow>
      (\<forall>r \<in> set routeRows. ra_ticketsCreated r = ra_ticketsResolved r + ra_pendingTickets r)) \<and>
   (agentPerformance allTickets metricRows = Some rows \<longrightarrow>
      (\<forall>r \<in> set rows.
         ticketsCreated r \<le> ticketsResolved r + pendingCount r \<and>
         (distinct (map ticket_key allTickets) \<longrightarrow>
            ticketsCreated r = ticketsResolved r + pendingCount r)))"
  using route_rows_exact [of allTickets metricRows routeRows]
    server_rows [of allTickets metricRows rows]
  by blast

theorem agent_rows_created_resolved_pending_witness:
  "agentPerformanceRoute [ex_t101, ex_t102] [ex_m101, ex_m102] =
     Some [\<lparr> ra_agentName = ''Asha Rao'', ra_ticketsCreated = 2, ra_ticketsResolved = 2,
              ra_pendingTickets = 0, ra_avgResolutionHours = 4, ra_avgFirstResponseHours = 1 \<rparr>] \<and>
   agentPerformance [ex_t101, ex_t102] [ex_m101, ex_m102] =
     Some [\<lparr> agentId = ''7001'', ticketsCreated = 2, ticketsResolved = 2, pendingCount = 0,
              avgResolutionHours = 0, avgResolutionText = ''0:00'' \<rparr>,
           \<lparr> agentId = ''unassigned'', ticketsCreated = 0, ticketsResolved = 0, pendingCount = 0,
              avgResolutionHours = 2, avgResolutionText = ''2:00'' \<rparr>] \<and>
   distinct (map ticket_key [ex_t101, ex_t102]) \<and>
   (2::nat) = 2 + 0"
  using agent_rows_created_resolved_pending [of "[ex_t101, ex_t102]" "[ex_m101, ex_m102]"
      "[\<lparr> ra_agentName = ''Asha Rao'', ra_ticketsCreated = 2, ra_ticketsResolved = 2,
              ra_pendingTickets = 0, ra_avgResolutionHours = 4, ra_avgFirstResponseHours = 1 \<rparr>]"
      "[\<lparr> agentId = ''7001'', ticketsCreated = 2, ticketsResolved = 2, pendingCount = 0,
              avgResolutionHours = 0, avgResolutionText = ''0:00'' \<rparr>,
           \<lparr> agentId = ''unassigned'', ticketsCreated = 0, ticketsResolved = 0, pendingCount = 0,
              avgResolutionHours = 2, avgResolutionText = ''2:00'' \<rparr>]"]
  using ex_ticket_keys by (simp add: ex_agentPerformance ex_agentPerformanceRoute)

text \<open>
  C2 at the resolution overlay of the server's route. Of two resolved tickets the first
  has a resolution time of four hours and the second has none. The parser gives 0 for the
  missing field and the guard \<open>resHrs >= 0\<close> lets it pass: the ticket is counted as a
  zero-duration ticket and the average is 2 hours, where the sum of the present values
  divided by the number of tickets with a value is 4 hours. (The rows carry no agent id, so
  the average lands in the bucket \<open>unassigned\<close>.) The routes module, with the guard
  \<open>resHrs > 0\<close>, reports 4 hours on the same input.
\<close>

theorem absent_resolution_time_counted_as_zero:
  "agentPerformance [ex_t101, ex_t102] [ex_m101, ex_m102] =
     Some [\<lparr> agentId = ''7001'', ticketsCreated = 2, ticketsResolved = 2, pendingCount = 0,
              avgResolutionHours = 0, avgResolutionText = ''0:00'' \<rparr>,
           \<lparr> agentId = ''unassigned'', ticketsCreated = 0, ticketsResolved = 0, pendingCount = 0,
              avgResolutionHours = 2, avgResolutionText = ''2:00'' \<rparr>] \<and>
   m_resolutionTime ex_m102 = [] \<and>
   parseZohoDurationToHours (m_resolutionTime ex_m101) = 4 \<and>
   agentPerformanceRoute [ex_t101, ex_t102] [ex_m101, ex_m102] =
     Some [\<lparr> ra_agentName = ''Asha Rao'', ra_ticketsCreated = 2, ra_ticketsResolved = 2,
              ra_pendingTickets = 0, ra_avgResolutionHours = 4, ra_avgFirstResponseHours = 1 \<rparr>]"
  by (simp add: ex_agentPerformance ex_agentPerformanceRoute ex_durations, simp add: ex_m101_def ex_m102_def ex_durations)


section \<open>Per-agent averages of the metrics table\<close>

lemma average_step_fr:
  "name \<notin> set object_prototype_names \<Longrightarrow>
   acc_fr (average_step z acc row) name =
     (if or_else (v_agentName row) ''Unknown'' = name
      then (case z (v_firstResponseTime row) of
              None \<Rightarrow> acc_fr acc name
            | Some x \<Rightarrow> (fst (acc_fr acc name) + x, snd (acc_fr acc name) + 1))
      else acc_fr acc name)"
  by (auto simp: average_step_def acc_fr_def Let_def split: option.splits)

lemma average_step_res:
  "name \<notin> set object_prototype_names \<Longrightarrow>
   acc_res (average_step z acc row) name =
     (if or_else (v_agentName row) ''Unknown'' = name
      then (case z (v_resolutionTime row) of
              None \<Rightarrow> acc_res acc name
            | Some x \<Rightarrow> (fst (acc_res acc name) + x, snd (acc_res acc name) + 1))
      else acc_res acc name)"
  by (auto simp: average_step_def acc_res_def Let_def split: option.splits)

lemma foldl_average_fr:
  "name \<notin> set object_prototype_names \<Longrightarrow>
   acc_fr (foldl (average_step z) acc rows) name =
     (fst (acc_fr acc name) + present_sum z v_firstResponseTime (rows_of name rows),
      snd (acc_fr acc name) + present_count z v_firstResponseTime (rows_of name rows))"
  by (induction rows arbitrary: acc)
    (auto simp: average_step_fr rows_of_def present_sum_def present_count_def split: option.splits)

lemma foldl_average_res:
  "name \<notin> set object_prototype_names \<Longrightarrow>
   acc_res (foldl (average_step z) acc rows) name =
     (fst (acc_res acc name) + present_sum z v_resolutionTime (rows_of name rows),
      snd (acc_res acc name) + present_count z v_resolutionTime (rows_of name rows))"
  by (induction rows arbitrary: acc)
    (auto simp: average_step_res rows_of_def present_sum_def present_count_def split: option.splits)

text \<open>
  In the metrics table the average of an agent is the rounded quotient of the sum of the
  present values by the number of rows that have one: a row without a value adds to
  neither.
\<close>

lemma agentAverageMap_present_only:
  assumes "name \<notin> set object_prototype_names"
    and "agentAverageMap z m2hm rows name = Some out"
  shows "avgFirstResponseMin out =
      (if present_count z v_firstResponseTime (rows_of name rows) = 0 then None
       else Some (js_round (present_sum z v_firstResponseTime (rows_of name rows) /
              of_nat (present_count z v_firstResponseTime (rows_of name rows)))))"
    and "avgResolutionMin out =
      (if present_count z v_resolutionTime (rows_of name rows) = 0 then None
       else Some (js_round (present_sum z v_resolutionTime (rows_of name rows) /
              of_nat (present_count z v_resolutionTime (rows_of name rows)))))"
proof -
  from assms(2) obtain a where a: "foldl (average_step z) Map.empty rows name = Some a"
    and out: "out = average_out m2hm a"
    by (auto simp: agentAverageMap_def)
  from foldl_average_fr [OF assms(1), of z Map.empty rows] a
  have fr: "frSum a = present_sum z v_firstResponseTime (rows_of name rows)"
    "frCount a = present_count z v_firstResponseTime (rows_of name rows)"
    by (simp_all add: acc_fr_def)
  from foldl_average_res [OF assms(1), of z Map.empty rows] a
  have res: "resSum a = present_sum z v_resolutionTime (rows_of name rows)"
    "resCount a = present_count z v_resolutionTime (rows_of name rows)"
    by (simp_all add: acc_res_def)
  show "avgFirstResponseMin out =
      (if present_count z v_firstResponseTime (rows_of name rows) = 0 then None
       else Some (js_round (present_sum z v_firstResponseTime (rows_of name rows) /
              of_nat (present_count z v_firstResponseTime (rows_of name rows)))))"
    by (simp add: out average_out_def Let_def fr)
  show "avgResolutionMin out =
      (if present_count z v_resolutionTime (rows_of name rows) = 0 then None
       else Some (js_round (present_sum z v_resolutionTime (rows_of name rows) /
              of_nat (present_count z v_resolutionTime (rows_of name rows)))))"
    by (simp add: out average_out_def Let_def res)
qed

lemma js_round_int: "js_round (of_int n) = n"
  unfolding js_round_def by (rule floor_unique) simp_all

lemma ex_agentAverageMap:
  "agentAverageMap ex_zohoHrsToMinutes ex_minutesToHM
     [ex_row_fr ''01:00 hrs'', ex_row_fr [], ex_row_fr ''03:00 hrs''] ''Asha Rao'' =
   Some \<lparr> avgFirstResponseHM = ''2:00'', avgFirstResponseMin = Some 120,
          avgResolutionHM = ''-'', avgResolutionMin = None \<rparr>"
  by (simp add: agentAverageMap_def average_step_def average_out_def Let_def or_else_def
      object_prototype_names_def ex_row_fr_def ex_zohoHrsToMinutes_def ex_minutesToHM_def
      js_round_int [of 120, simplified] padStart2_def show_nat.simps [of 0] show_nat.simps [of 2]
      digit_char_def)

end
